theory Spec2Isabelle
  imports Main
begin

section \<open>Regular expressions, matched by derivatives\<close>

text \<open>
  The grammar describes tokens by regular expressions over characters, and the children
  of a node by regular expressions over grammar symbols (\<open>seq\<close>, \<open>choice\<close>,
  \<open>repeat\<close>). Both are instances of one type, with the meaning of an atom given by
  a satisfaction function.
\<close>

datatype 'a rx =
    Never
  | Eps
  | Atom 'a
  | Cat "'a rx" "'a rx"
  | Alt "'a rx" "'a rx"
  | Star "'a rx"

fun nullable :: "'a rx \<Rightarrow> bool" where
  "nullable Never = False"
| "nullable Eps = True"
| "nullable (Atom a) = False"
| "nullable (Cat r s) = (nullable r \<and> nullable s)"
| "nullable (Alt r s) = (nullable r \<or> nullable s)"
| "nullable (Star r) = True"

fun deriv :: "('a \<Rightarrow> 'b \<Rightarrow> bool) \<Rightarrow> 'b \<Rightarrow> 'a rx \<Rightarrow> 'a rx" where
  "deriv sat x Never = Never"
| "deriv sat x Eps = Never"
| "deriv sat x (Atom a) = (if sat a x then Eps else Never)"
| "deriv sat x (Cat r s) =
     (if nullable r then Alt (Cat (deriv sat x r) s) (deriv sat x s)
      else Cat (deriv sat x r) s)"
| "deriv sat x (Alt r s) = Alt (deriv sat x r) (deriv sat x s)"
| "deriv sat x (Star r) = Cat (deriv sat x r) (Star r)"

fun accepts :: "('a \<Rightarrow> 'b \<Rightarrow> bool) \<Rightarrow> 'a rx \<Rightarrow> 'b list \<Rightarrow> bool" where
  "accepts sat r [] = nullable r"
| "accepts sat r (x # xs) = accepts sat (deriv sat x r) xs"

text \<open>The length of the longest prefix of the input that the expression matches.\<close>

fun longest :: "('a \<Rightarrow> 'b \<Rightarrow> bool) \<Rightarrow> 'a rx \<Rightarrow> 'b list \<Rightarrow> nat option" where
  "longest sat r [] = (if nullable r then Some 0 else None)"
| "longest sat r (x # xs) =
     (case longest sat (deriv sat x r) xs of
        Some n \<Rightarrow> Some (Suc n)
      | None \<Rightarrow> if nullable r then Some 0 else None)"

definition Plus :: "'a rx \<Rightarrow> 'a rx" where
  "Plus r = Cat r (Star r)"

fun cats :: "'a rx list \<Rightarrow> 'a rx" where
  "cats [] = Eps"
| "cats (r # rs) = Cat r (cats rs)"

fun alts :: "'a rx list \<Rightarrow> 'a rx" where
  "alts [] = Never"
| "alts (r # rs) = Alt r (alts rs)"

subsection \<open>Character classes of the token patterns\<close>

text \<open>
  The members of a bracket expression: a character, a range, \<open>\s\<close> and \<open>\w\<close>
  (on bytes: the ASCII members of the two classes).
\<close>

datatype citem = Ch char | Rg char char | Ws | Wd

fun citem_has :: "citem \<Rightarrow> char \<Rightarrow> bool" where
  "citem_has (Ch a) c = (c = a)"
| "citem_has (Rg a b) c = ((of_char a :: nat) \<le> of_char c \<and> (of_char c :: nat) \<le> of_char b)"
| "citem_has Ws c = (c \<in> set [CHR '' '', CHR 0x09, CHR 0x0A, CHR 0x0B, CHR 0x0C, CHR 0x0D])"
| "citem_has Wd c =
     (((of_char (CHR ''a'') :: nat) \<le> of_char c \<and> (of_char c :: nat) \<le> of_char (CHR ''z''))
      \<or> ((of_char (CHR ''A'') :: nat) \<le> of_char c \<and> (of_char c :: nat) \<le> of_char (CHR ''Z''))
      \<or> ((of_char (CHR ''0'') :: nat) \<le> of_char c \<and> (of_char c :: nat) \<le> of_char (CHR ''9''))
      \<or> c = CHR ''_'')"

text \<open>
  An atom of a pattern: a class \<open>[...]\<close> (a single character is a class of one), a
  negated class \<open>[^...]\<close>, and the dot, which matches every character but the line feed.
\<close>

datatype cclass = Cls "citem list" | NCls "citem list" | Dot

fun cclass_has :: "cclass \<Rightarrow> char \<Rightarrow> bool" where
  "cclass_has (Cls is) c = list_ex (\<lambda>i. citem_has i c) is"
| "cclass_has (NCls is) c = (\<not> list_ex (\<lambda>i. citem_has i c) is)"
| "cclass_has Dot c = (c \<noteq> CHR 0x0A)"

type_synonym regex = "cclass rx"

definition lit :: "string \<Rightarrow> regex" where
  "lit s = cats (map (\<lambda>c. Atom (Cls [Ch c])) s)"

definition re_match :: "regex \<Rightarrow> string \<Rightarrow> bool" where
  "re_match r s = accepts cclass_has r s"

definition re_longest :: "regex \<Rightarrow> string \<Rightarrow> nat option" where
  "re_longest r s = longest cclass_has r s"

section \<open>The grammar DSL\<close>

text \<open>
  The rule constructors of the DSL in which \<open>grammar.js\<close> is written. \<open>prec(n, r)\<close>,
  \<open>prec.left(n, r)\<close> and \<open>prec.right(n, r)\<close> are kept apart; without a number the
  precedence is 0. \<open>alias(r, $.name)\<close> is a named alias, \<open>alias(r, 'text')\<close> an
  anonymous one.
\<close>

datatype rule =
    Blank
  | Str string
  | Pat regex
  | Sym string
  | Seq "rule list"
  | Choice "rule list"
  | Repeat rule
  | Repeat1 rule
  | Prec int rule
  | Prec_left int rule
  | Prec_right int rule
  | Field string rule
  | Alias rule bool string
  | Token rule
  | Token_immediate rule

definition optional :: "rule \<Rightarrow> rule" where
  "optional r = Choice [r, Blank]"

definition sepBy1 :: "rule \<Rightarrow> rule \<Rightarrow> rule" where
  "sepBy1 sep r = Seq [r, Repeat (Seq [sep, r])]"

definition sepBy :: "rule \<Rightarrow> rule \<Rightarrow> rule" where
  "sepBy sep r = optional (sepBy1 sep r)"

subsection \<open>The precedence table\<close>

datatype prec_name =
    prec_call | prec_field | prec_try | prec_unary | prec_cast | prec_multiplicative
  | prec_additive | prec_shift | prec_bitand | prec_bitxor | prec_bitor
  | prec_comparative | prec_and | prec_or | prec_range | prec_assign | prec_closure

fun PREC :: "prec_name \<Rightarrow> int" where
  "PREC prec_call = 15"
| "PREC prec_field = 14"
| "PREC prec_try = 13"
| "PREC prec_unary = 12"
| "PREC prec_cast = 11"
| "PREC prec_multiplicative = 10"
| "PREC prec_additive = 9"
| "PREC prec_shift = 8"
| "PREC prec_bitand = 7"
| "PREC prec_bitxor = 6"
| "PREC prec_bitor = 5"
| "PREC prec_comparative = 4"
| "PREC prec_and = 3"
| "PREC prec_or = 2"
| "PREC prec_range = 1"
| "PREC prec_assign = 0"
| "PREC prec_closure = -1"

text \<open>The precedence levels in the order of the table, highest first.\<close>

definition prec_order :: "prec_name list" where
  "prec_order = [prec_call, prec_field, prec_try, prec_unary, prec_cast, prec_multiplicative,
     prec_additive, prec_shift, prec_bitand, prec_bitxor, prec_bitor, prec_comparative,
     prec_and, prec_or, prec_range, prec_assign, prec_closure]"

subsection \<open>Concrete syntax trees\<close>

text \<open>
  A node has a kind and the sequence of tokens and nodes that its rule has read, each
  with its field name, empty when it has none. The members of that sequence are:
  an anonymous token with its text (a string literal of the grammar); an auxiliary token
  with its text (an inline pattern of the grammar: it is part of the text of the node,
  but it is not a child that the tree shows); a named token (kind and text); a named
  node. \<open>children\<close> are the members that the tree shows.
\<close>

datatype cst =
    Anon string
  | Aux string
  | Leaf string string
  | Node string "(string \<times> cst) list"

fun kind_of :: "cst \<Rightarrow> string option" where
  "kind_of (Anon t) = None"
| "kind_of (Aux t) = None"
| "kind_of (Leaf k t) = Some k"
| "kind_of (Node k cs) = Some k"

fun shown :: "cst \<Rightarrow> bool" where
  "shown (Aux t) = False"
| "shown c = True"

fun children :: "cst \<Rightarrow> (string \<times> cst) list" where
  "children (Node k cs) = filter (\<lambda>c. shown (snd c)) cs"
| "children c = []"

definition child_by_field :: "cst \<Rightarrow> string \<Rightarrow> cst option" where
  "child_by_field t f = map_option snd (find (\<lambda>c. fst c = f) (children t))"

subsection \<open>The operator rules of expressions\<close>

text \<open>
  Rules are named as in \<open>grammar.js\<close>; a leading underscore of the source, which
  marks a hidden rule, is written \<open>u_\<close> in the name of the definition and kept in the
  symbol.
\<close>

definition u_expression :: rule where
  "u_expression = Choice [Sym ''_expression_except_range'', Sym ''range_expression'']"

definition unary_expression :: rule where
  "unary_expression = Prec (PREC prec_unary) (Seq [
     Choice [Str ''-'', Str ''*'', Str ''!''],
     Sym ''_expression''])"

definition try_expression :: rule where
  "try_expression = Prec (PREC prec_try) (Seq [
     Sym ''_expression'',
     Str ''?''])"

definition binary_table :: "(int \<times> rule) list" where
  "binary_table = [
     (PREC prec_and, Str ''&&''),
     (PREC prec_or, Str ''||''),
     (PREC prec_bitand, Str ''&''),
     (PREC prec_bitor, Str ''|''),
     (PREC prec_bitxor, Str ''^''),
     (PREC prec_comparative, Choice [Str ''=='', Str ''!='', Str ''<'', Str ''<='', Str ''>'', Str ''>='']),
     (PREC prec_shift, Choice [Str ''<<'', Str ''>>'']),
     (PREC prec_additive, Choice [Str ''+'', Str ''-'']),
     (PREC prec_multiplicative, Choice [Str ''*'', Str ''/'', Str ''%''])]"

definition binary_expression :: rule where
  "binary_expression = Choice (map (\<lambda>(precedence, operator). Prec_left precedence (Seq [
     Field ''left'' (Sym ''_expression''),
     Field ''operator'' operator,
     Field ''right'' (Sym ''_expression'')])) binary_table)"

definition assignment_expression :: rule where
  "assignment_expression = Prec_left (PREC prec_assign) (Seq [
     Field ''left'' (Sym ''_expression''),
     Str ''='',
     Field ''right'' (Sym ''_expression'')])"

definition compound_assignment_expr :: rule where
  "compound_assignment_expr = Prec_left (PREC prec_assign) (Seq [
     Field ''left'' (Sym ''_expression''),
     Field ''operator'' (Choice [Str ''+='', Str ''-='', Str ''*='', Str ''/='', Str ''%='',
       Str ''&='', Str ''|='', Str ''^='', Str ''<<='', Str ''>>='']),
     Field ''right'' (Sym ''_expression'')])"

definition range_expression :: rule where
  "range_expression = Prec_left (PREC prec_range) (Choice [
     Seq [Sym ''_expression'', Choice [Str ''..'', Str ''...'', Str ''..=''], Sym ''_expression''],
     Seq [Sym ''_expression'', Str ''..''],
     Seq [Str ''..'', Sym ''_expression''],
     Str ''..''])"

definition reference_expression :: rule where
  "reference_expression = Prec (PREC prec_unary) (Seq [
     Str ''&'',
     Choice [
       Seq [Str ''raw'', Choice [Str ''const'', Str ''mut'']],
       optional (Str ''mut'')],
     Field ''value'' (Sym ''_expression'')])"

definition type_cast_expression :: rule where
  "type_cast_expression = Prec_left (PREC prec_cast) (Seq [
     Field ''value'' (Sym ''_expression''),
     Str ''as'',
     Field ''type'' (Sym ''_type'')])"

definition call_expression :: rule where
  "call_expression = Prec (PREC prec_call) (Seq [
     Field ''function'' (Sym ''_expression_except_range''),
     Field ''arguments'' (Sym ''arguments'')])"

definition index_expression :: rule where
  "index_expression = Prec (PREC prec_call) (Seq [
     Sym ''_expression'', Str ''['', Sym ''_expression'', Str '']''])"

definition await_expression :: rule where
  "await_expression = Prec (PREC prec_field) (Seq [
     Sym ''_expression'',
     Str ''.'',
     Str ''await''])"

definition field_expression :: rule where
  "field_expression = Prec (PREC prec_field) (Seq [
     Field ''value'' (Sym ''_expression''),
     Str ''.'',
     Field ''field'' (Choice [
       Sym ''_field_name'',
       Sym ''integer_literal''])])"

definition closure_expression :: rule where
  "closure_expression = Prec (PREC prec_closure) (Seq [
     optional (Str ''static''),
     optional (Str ''move''),
     Field ''parameters'' (Sym ''closure_parameters''),
     Choice [
       Seq [
         optional (Seq [Str ''->'', Field ''return_type'' (Sym ''_type'')]),
         Field ''body'' (Sym ''block'')],
       Field ''body'' (Choice [Sym ''_expression'', Str ''_''])]])"

text \<open>The precedence that the \<open>prec\<close> wrapper of a rule gives it.\<close>

fun rule_prec :: "rule \<Rightarrow> int option" where
  "rule_prec (Prec n r) = Some n"
| "rule_prec (Prec_left n r) = Some n"
| "rule_prec (Prec_right n r) = Some n"
| "rule_prec r = None"

section \<open>The rules of the grammar\<close>

text \<open>
  The rules that the theorems below are about, transcribed from \<open>grammar.js\<close>. Every
  other rule of the grammar occurs here as a symbol only.
\<close>

definition extras :: "rule list" where
  "extras = [
     Pat (Atom (Cls [Ws])),
     Sym ''line_comment'',
     Sym ''block_comment'']"

definition conflicts :: "string list list" where
  "conflicts = [
     [''_type'', ''_pattern''],
     [''unit_type'', ''tuple_pattern''],
     [''scoped_name'', ''scoped_type_name''],
     [''parameters'', ''_pattern''],
     [''parameters'', ''tuple_struct_pattern''],
     [''type_parameters'', ''for_lifetimes''],
     [''array_expression''],
     [''visibility_modifier'']]"

definition TOKEN_TREE_NON_SPECIAL_PUNCTUATION :: "string list" where
  "TOKEN_TREE_NON_SPECIAL_PUNCTUATION = [
     ''+'', ''-'', ''*'', ''/'', ''%'', ''^'', ''!'', ''&'', ''|'', ''&&'', ''||'', ''<<'',
     ''>>'', ''+='', ''-='', ''*='', ''/='', ''%='', ''^='', ''&='', ''|='', ''<<='',
     ''>>='', ''='', ''=='', ''!='', ''>'', ''<'', ''>='', ''<='', ''@'', ''_'', ''.'',
     ''..'', ''...'', ''..='', '','', '';'', '':'', ''::'', ''->'', ''=>'', ''#'', ''?'']"

definition source_file :: rule where
  "source_file = Seq [
     optional (Sym ''shebang''),
     Repeat (Sym ''_statement'')]"

definition u_statement :: rule where
  "u_statement = Choice [
     Sym ''expression_statement'',
     Sym ''_declaration_statement'']"

definition u_declaration_statement :: rule where
  "u_declaration_statement = Choice [
     Sym ''const_item'',
     Sym ''macro_invocation'',
     Sym ''macro_definition'',
     Sym ''empty_statement'',
     Sym ''attribute_item'',
     Sym ''inner_attribute_item'',
     Sym ''mod_item'',
     Sym ''foreign_mod_item'',
     Sym ''struct_item'',
     Sym ''union_item'',
     Sym ''enum_item'',
     Sym ''type_item'',
     Sym ''function_item'',
     Sym ''function_signature_item'',
     Sym ''impl_item'',
     Sym ''trait_item'',
     Sym ''associated_type'',
     Sym ''let_declaration'',
     Sym ''use_declaration'',
     Sym ''extern_crate_declaration'',
     Sym ''static_item'']"

definition u_token_pattern :: rule where
  "u_token_pattern = Choice [
     Sym ''token_tree_pattern'',
     Sym ''token_repetition_pattern'',
     Sym ''token_binding_pattern'',
     Sym ''metavariable'',
     Sym ''_non_special_token'']"

definition token_tree_pattern :: rule where
  "token_tree_pattern = Choice [
     Seq [Str ''('', Repeat (Sym ''_token_pattern''), Str '')''],
     Seq [Str ''['', Repeat (Sym ''_token_pattern''), Str '']''],
     Seq [Str ''{'', Repeat (Sym ''_token_pattern''), Str ''}'']]"

definition token_binding_pattern :: rule where
  "token_binding_pattern = Prec 1 (Seq [
     Field ''name'' (Sym ''metavariable''),
     Str '':'',
     Field ''type'' (Sym ''fragment_specifier'')])"

definition token_repetition_pattern :: rule where
  "token_repetition_pattern = Seq [
     Str ''$'', Str ''('', Repeat (Sym ''_token_pattern''), Str '')'',
     optional (Pat (Plus (Atom (NCls [Ch (CHR ''+''), Ch (CHR ''*''), Ch (CHR ''?'')])))),
     Choice [Str ''+'', Str ''*'', Str ''?'']]"

definition fragment_specifier :: rule where
  "fragment_specifier = Choice [
     Str ''block'', Str ''expr'', Str ''ident'', Str ''item'', Str ''lifetime'', Str ''literal'',
     Str ''meta'', Str ''pat'', Str ''path'', Str ''stmt'', Str ''tt'', Str ''ty'', Str ''vis'']"

definition u_non_special_token :: rule where
  "u_non_special_token = Choice ([
     Sym ''_literal'', Sym ''name'', Str ''mut'', Str ''self'', Str ''super'', Str ''crate'',
     Prec_right 0 (Repeat1 (Choice (map Str TOKEN_TREE_NON_SPECIAL_PUNCTUATION))),
     Str [CHR 0x27]]
     @ map Str [''as'', ''async'', ''await'', ''break'', ''const'', ''continue'', ''default'',
       ''enum'', ''fn'', ''for'', ''gen'', ''if'', ''impl'', ''let'', ''loop'', ''match'',
       ''mod'', ''pub'', ''return'', ''static'', ''struct'', ''trait'', ''type'', ''union'',
       ''unsafe'', ''use'', ''where'', ''while''])"

definition inner_attribute_item :: rule where
  "inner_attribute_item = Seq [
     Str ''#'',
     Str ''!'',
     Str ''['',
     Sym ''_attribute'',
     Str '']'']"

definition u_attribute :: rule where
  "u_attribute = Choice [
     Sym ''unsafe_attribute'',
     Sym ''builtin_attribute'',
     Sym ''attribute_macro'']"

definition let_declaration :: rule where
  "let_declaration = Seq [
     Str ''let'',
     optional (Str ''mut''),
     Field ''pattern'' (Sym ''_pattern''),
     optional (Seq [
       Str '':'',
       Field ''type'' (Sym ''_type'')]),
     optional (Seq [
       Str ''='',
       Field ''value'' (Sym ''_expression'')]),
     optional (Seq [
       Str ''else'',
       Field ''alternative'' (Sym ''block'')]),
     Str '';'']"

definition u_type :: rule where
  "u_type = Choice [
     Sym ''abstract_type'',
     Sym ''reference_type'',
     Sym ''metavariable'',
     Sym ''pointer_type'',
     Sym ''generic_type'',
     Sym ''scoped_type_name'',
     Sym ''tuple_type'',
     Sym ''unit_type'',
     Sym ''array_type'',
     Sym ''function_type'',
     Sym ''self_type'',
     Sym ''_type_name'',
     Sym ''macro_invocation'',
     Sym ''never_type'',
     Sym ''dynamic_type'',
     Sym ''bounded_type'',
     Sym ''removed_trait_bound'']"

definition u_expression_except_range :: rule where
  "u_expression_except_range = Choice [
     Sym ''unary_expression'',
     Sym ''reference_expression'',
     Sym ''try_expression'',
     Sym ''binary_expression'',
     Sym ''assignment_expression'',
     Sym ''compound_assignment_expr'',
     Sym ''type_cast_expression'',
     Sym ''call_expression'',
     Sym ''return_expression'',
     Sym ''yield_expression'',
     Sym ''_literal'',
     Prec_left 0 (Sym ''name''),
     Prec_left 0 (Sym ''_reserved_keyword''),
     Sym ''self'',
     Sym ''scoped_name'',
     Sym ''generic_function'',
     Sym ''await_expression'',
     Sym ''field_expression'',
     Sym ''array_expression'',
     Sym ''tuple_expression'',
     Prec 1 (Sym ''macro_invocation''),
     Sym ''unit_expression'',
     Sym ''break_expression'',
     Sym ''continue_expression'',
     Sym ''index_expression'',
     Sym ''metavariable'',
     Sym ''closure_expression'',
     Sym ''parenthesized_expression'',
     Sym ''struct_expression'',
     Sym ''_expression_ending_with_block'']"

definition u_expression_ending_with_block :: rule where
  "u_expression_ending_with_block = Choice [
     Sym ''unsafe_block'',
     Sym ''async_block'',
     Sym ''gen_block'',
     Sym ''try_block'',
     Sym ''block'',
     Sym ''if_expression'',
     Sym ''match_expression'',
     Sym ''while_expression'',
     Sym ''loop_expression'',
     Sym ''for_expression'',
     Sym ''const_block'']"

definition parenthesized_expression :: rule where
  "parenthesized_expression = Seq [
     Str ''('',
     Sym ''_expression'',
     Str '')'']"

definition tuple_expression :: rule where
  "tuple_expression = Seq [
     Str ''('',
     Repeat (Sym ''attribute_item''),
     Seq [Sym ''_expression'', Str '',''],
     Repeat (Seq [Sym ''_expression'', Str '','']),
     optional (Sym ''_expression''),
     Str '')'']"

definition unit_expression :: rule where
  "unit_expression = Seq [Str ''('', Str '')'']"

definition arguments :: rule where
  "arguments = Seq [
     Str ''('',
     sepBy (Str '','') (Seq [Repeat (Sym ''attribute_item''), Sym ''_expression'']),
     optional (Str '',''),
     Str '')'']"

definition closure_parameters :: rule where
  "closure_parameters = Seq [
     Str ''|'',
     sepBy (Str '','') (Choice [
       Sym ''_pattern'',
       Sym ''parameter'']),
     Str ''|'']"

definition boolean_literal :: rule where
  "boolean_literal = Choice [Str ''true'', Str ''false'']"

definition u_pattern :: rule where
  "u_pattern = Choice [
     Sym ''_literal_pattern'',
     Sym ''name'',
     Sym ''scoped_name'',
     Sym ''tuple_pattern'',
     Sym ''tuple_struct_pattern'',
     Sym ''struct_pattern'',
     Sym ''_reserved_keyword'',
     Sym ''ref_pattern'',
     Sym ''slice_pattern'',
     Sym ''captured_pattern'',
     Sym ''reference_pattern'',
     Sym ''remaining_field_pattern'',
     Sym ''mut_pattern'',
     Sym ''range_pattern'',
     Sym ''or_pattern'',
     Sym ''const_block'',
     Sym ''macro_invocation'',
     Str ''_'']"

definition u_literal :: rule where
  "u_literal = Choice [
     Sym ''string_literal'',
     Sym ''raw_string_literal'',
     Sym ''char_literal'',
     Sym ''boolean_literal'',
     Sym ''integer_literal'',
     Sym ''float_literal'']"

definition u_literal_pattern :: rule where
  "u_literal_pattern = Choice [
     Sym ''string_literal'',
     Sym ''raw_string_literal'',
     Sym ''char_literal'',
     Sym ''boolean_literal'',
     Sym ''integer_literal'',
     Sym ''float_literal'',
     Sym ''negative_literal'']"

definition line_comment :: rule where
  "line_comment = Seq [
     Str ''//'',
     Choice [
       Seq [Token_immediate (Prec 2 (Pat (lit ''//''))), Pat (Star (Atom Dot))],
       Seq [Sym ''_line_doc_comment_marker'',
            Field ''doc'' (Alias (Sym ''_line_doc_content'') True ''doc_comment'')],
       Token_immediate (Prec 1 (Pat (Star (Atom Dot))))]]"

definition u_line_doc_comment_marker :: rule where
  "u_line_doc_comment_marker = Choice [
     Field ''outer'' (Alias (Sym ''_outer_line_doc_comment_marker'') True ''outer_doc_comment_marker''),
     Field ''inner'' (Alias (Sym ''_inner_line_doc_comment_marker'') True ''inner_doc_comment_marker'')]"

definition u_inner_line_doc_comment_marker :: rule where
  "u_inner_line_doc_comment_marker = Token_immediate (Prec 2 (Str ''!''))"

definition u_outer_line_doc_comment_marker :: rule where
  "u_outer_line_doc_comment_marker = Token_immediate (Prec 2 (Str ''/''))"

definition name :: rule where
  "name = Seq [optional (Str ''r#''), Sym ''identifier'']"

text \<open>
  \<open>\p{XID_Start}\<close> and \<open>\p{XID_Continue}\<close> are taken on bytes: their ASCII members, the
  letters, and the letters, digits and underscore.
\<close>

definition identifier_token :: rule where
  "identifier_token = Pat (Cat
     (Atom (Cls [Ch (CHR ''_''), Rg (CHR ''a'') (CHR ''z''), Rg (CHR ''A'') (CHR ''Z'')]))
     (Star (Atom (Cls [Ch (CHR ''_''), Wd]))))"

definition shebang :: rule where
  "shebang = Pat (cats [
     Atom (Cls [Ch (CHR ''#'')]),
     Atom (Cls [Ch (CHR ''!'')]),
     Star (Atom (Cls [Ws])),
     Atom (NCls [Ch (CHR ''['')]),
     Plus (Atom Dot)])"

definition u_reserved_keyword :: rule where
  "u_reserved_keyword = Alias (Choice [
     Str ''default'',
     Str ''union'',
     Str ''gen'']) True ''name''"

definition u_type_name :: rule where
  "u_type_name = Alias (Sym ''name'') True ''type_name''"

definition u_field_name :: rule where
  "u_field_name = Alias (Sym ''name'') True ''field_name''"

definition metavariable :: rule where
  "metavariable = Pat (cats [
     Atom (Cls [Ch (CHR ''$'')]),
     Atom (Cls [Rg (CHR ''a'') (CHR ''z''), Rg (CHR ''A'') (CHR ''Z''), Ch (CHR ''_'')]),
     Star (Atom (Cls [Wd]))])"

definition rules :: "(string \<times> rule) list" where
  "rules = [
     (''source_file'', source_file),
     (''_statement'', u_statement),
     (''_declaration_statement'', u_declaration_statement),
     (''_token_pattern'', u_token_pattern),
     (''token_tree_pattern'', token_tree_pattern),
     (''token_binding_pattern'', token_binding_pattern),
     (''token_repetition_pattern'', token_repetition_pattern),
     (''fragment_specifier'', fragment_specifier),
     (''_non_special_token'', u_non_special_token),
     (''inner_attribute_item'', inner_attribute_item),
     (''_attribute'', u_attribute),
     (''let_declaration'', let_declaration),
     (''_type'', u_type),
     (''_expression_except_range'', u_expression_except_range),
     (''_expression'', u_expression),
     (''_expression_ending_with_block'', u_expression_ending_with_block),
     (''range_expression'', range_expression),
     (''unary_expression'', unary_expression),
     (''try_expression'', try_expression),
     (''reference_expression'', reference_expression),
     (''binary_expression'', binary_expression),
     (''assignment_expression'', assignment_expression),
     (''compound_assignment_expr'', compound_assignment_expr),
     (''type_cast_expression'', type_cast_expression),
     (''call_expression'', call_expression),
     (''parenthesized_expression'', parenthesized_expression),
     (''tuple_expression'', tuple_expression),
     (''unit_expression'', unit_expression),
     (''closure_expression'', closure_expression),
     (''closure_parameters'', closure_parameters),
     (''arguments'', arguments),
     (''boolean_literal'', boolean_literal),
     (''index_expression'', index_expression),
     (''await_expression'', await_expression),
     (''field_expression'', field_expression),
     (''_pattern'', u_pattern),
     (''_literal'', u_literal),
     (''_literal_pattern'', u_literal_pattern),
     (''line_comment'', line_comment),
     (''_line_doc_comment_marker'', u_line_doc_comment_marker),
     (''_inner_line_doc_comment_marker'', u_inner_line_doc_comment_marker),
     (''_outer_line_doc_comment_marker'', u_outer_line_doc_comment_marker),
     (''name'', name),
     (''identifier'', identifier_token),
     (''shebang'', shebang),
     (''_reserved_keyword'', u_reserved_keyword),
     (''_type_name'', u_type_name),
     (''_field_name'', u_field_name),
     (''metavariable'', metavariable)]"

definition rule_of :: "string \<Rightarrow> rule option" where
  "rule_of = map_of rules"

section \<open>The children that a rule admits\<close>

text \<open>
  A position of a rule matches one member of a node: an anonymous token with a given
  text, an auxiliary token whose text matches a pattern, or a named token or node of a
  given kind. An atom is such a position with the field name under which it stands.
\<close>

datatype elem = E_str string | E_pat regex | E_node string

fun elem_sat :: "elem \<Rightarrow> cst \<Rightarrow> bool" where
  "elem_sat (E_str s) c = (c = Anon s)"
| "elem_sat (E_pat r) c = (case c of Aux t \<Rightarrow> re_match r t | _ \<Rightarrow> False)"
| "elem_sat (E_node k) c = (kind_of c = Some k)"

fun atom_sat :: "string \<times> elem \<Rightarrow> string \<times> cst \<Rightarrow> bool" where
  "atom_sat (f, e) (g, c) = (f = g \<and> elem_sat e c)"

text \<open>The regular expression of a token rule; none when the rule is not a token.\<close>

fun token_regex :: "rule \<Rightarrow> regex option" where
  "token_regex Blank = Some Eps"
| "token_regex (Str s) = Some (lit s)"
| "token_regex (Pat r) = Some r"
| "token_regex (Seq rs) = map_option cats (those (map token_regex rs))"
| "token_regex (Choice rs) = map_option alts (those (map token_regex rs))"
| "token_regex (Repeat r) = map_option Star (token_regex r)"
| "token_regex (Repeat1 r) = map_option Plus (token_regex r)"
| "token_regex (Prec n r) = token_regex r"
| "token_regex (Prec_left n r) = token_regex r"
| "token_regex (Prec_right n r) = token_regex r"
| "token_regex (Token r) = token_regex r"
| "token_regex (Token_immediate r) = token_regex r"
| "token_regex (Sym s) = None"
| "token_regex (Field f r) = None"
| "token_regex (Alias r b a) = None"

text \<open>
  The text of a \<open>token(...)\<close> rule that wraps one string literal, with or without a
  precedence: such a token is an anonymous token with that text, like the literal itself.
\<close>

fun token_string :: "rule \<Rightarrow> string option" where
  "token_string (Str s) = Some s"
| "token_string (Prec n r) = token_string r"
| "token_string (Prec_left n r) = token_string r"
| "token_string (Prec_right n r) = token_string r"
| "token_string r = None"

fun terminal :: "rule \<Rightarrow> bool" where
  "terminal (Str s) = True"
| "terminal (Pat r) = True"
| "terminal (Token r) = True"
| "terminal (Token_immediate r) = True"
| "terminal r = False"

text \<open>A rule whose name starts with an underscore is hidden: it makes no node.\<close>

fun hidden :: "string \<Rightarrow> bool" where
  "hidden [] = False"
| "hidden (c # cs) = (c = CHR ''_'')"

text \<open>
  The regular expression over the members of a node that a rule describes. A string
  literal is an anonymous token. An inline pattern, a \<open>token(...)\<close> of more than one
  string literal, and a hidden rule that is a token are auxiliary tokens: they are read,
  and the tree does not show them. A hidden symbol that is not a token is replaced by
  its rule, to a depth given by the fuel; precedence wrappers do not change the members;
  a field gives its name to the members below it; an alias stands for one member with
  the alias's name. \<open>resolved\<close> says that every hidden symbol met on the way has a rule
  and the fuel was enough, so that nothing was lost.
\<close>

definition aux_atom :: "string \<Rightarrow> rule \<Rightarrow> (string \<times> elem) rx" where
  "aux_atom f r = (case token_regex r of None \<Rightarrow> Never | Some x \<Rightarrow> Atom (f, E_pat x))"

definition token_atom :: "string \<Rightarrow> rule \<Rightarrow> (string \<times> elem) rx" where
  "token_atom f r = (case token_string r of Some s \<Rightarrow> Atom (f, E_str s) | None \<Rightarrow> aux_atom f r)"

fun compile :: "(string \<Rightarrow> rule option) \<Rightarrow> nat \<Rightarrow> string \<Rightarrow> rule \<Rightarrow> (string \<times> elem) rx" where
  "compile G n f Blank = Eps"
| "compile G n f (Str s) = Atom (f, E_str s)"
| "compile G n f (Pat r) = Atom (f, E_pat r)"
| "compile G n f (Sym s) =
     (if hidden s
      then (case n of
              0 \<Rightarrow> Never
            | Suc m \<Rightarrow>
                (case G s of
                   None \<Rightarrow> Never
                 | Some r \<Rightarrow> if terminal r then aux_atom f r else compile G m f r))
      else Atom (f, E_node s))"
| "compile G n f (Seq rs) = cats (map (compile G n f) rs)"
| "compile G n f (Choice rs) = alts (map (compile G n f) rs)"
| "compile G n f (Repeat r) = Star (compile G n f r)"
| "compile G n f (Repeat1 r) = Plus (compile G n f r)"
| "compile G n f (Prec p r) = compile G n f r"
| "compile G n f (Prec_left p r) = compile G n f r"
| "compile G n f (Prec_right p r) = compile G n f r"
| "compile G n f (Field g r) = compile G n g r"
| "compile G n f (Alias r named a) = Atom (f, if named then E_node a else E_str a)"
| "compile G n f (Token r) = token_atom f r"
| "compile G n f (Token_immediate r) = token_atom f r"

fun resolved :: "(string \<Rightarrow> rule option) \<Rightarrow> nat \<Rightarrow> rule \<Rightarrow> bool" where
  "resolved G n (Sym s) =
     (if hidden s
      then (case n of
              0 \<Rightarrow> False
            | Suc m \<Rightarrow> (case G s of None \<Rightarrow> False | Some r \<Rightarrow> resolved G m r))
      else True)"
| "resolved G n (Seq rs) = list_all (resolved G n) rs"
| "resolved G n (Choice rs) = list_all (resolved G n) rs"
| "resolved G n (Repeat r) = resolved G n r"
| "resolved G n (Repeat1 r) = resolved G n r"
| "resolved G n (Prec p r) = resolved G n r"
| "resolved G n (Prec_left p r) = resolved G n r"
| "resolved G n (Prec_right p r) = resolved G n r"
| "resolved G n (Field g r) = resolved G n r"
| "resolved G n (Token r) = (token_regex r \<noteq> None)"
| "resolved G n (Token_immediate r) = (token_regex r \<noteq> None)"
| "resolved G n r = True"

definition depth :: nat where
  "depth = 6"

text \<open>
  The children of a node of kind \<open>k\<close>: none is known (\<open>None\<close>) when the kind has no rule
  here, when its rule is a token (it has no children), or when a hidden symbol in it is
  not resolved.
\<close>

definition node_rx :: "string \<Rightarrow> (string \<times> elem) rx option" where
  "node_rx k =
     (case rule_of k of
        None \<Rightarrow> None
      | Some r \<Rightarrow>
          if terminal r \<or> \<not> resolved rule_of depth r then None
          else Some (compile rule_of depth [] r))"

definition admits :: "string \<Rightarrow> (string \<times> cst) list \<Rightarrow> bool" where
  "admits k cs = (case node_rx k of None \<Rightarrow> False | Some r \<Rightarrow> accepts atom_sat r cs)"

text \<open>
  A tree conforms to the grammar when every named token matches the pattern of its rule
  and every node has members that its rule admits and that conform themselves. A node
  whose kind is the name of an alias has no rule of its own and does not conform.
\<close>

fun conforms :: "cst \<Rightarrow> bool" where
  "conforms (Anon t) = True"
| "conforms (Aux t) = True"
| "conforms (Leaf k t) =
     (case rule_of k of
        None \<Rightarrow> False
      | Some r \<Rightarrow>
          terminal r \<and> (case token_regex r of None \<Rightarrow> False | Some x \<Rightarrow> re_match x t))"
| "conforms (Node k cs) = (admits k cs \<and> list_all (\<lambda>c. conforms (snd c)) cs)"

text \<open>The text of a tree: the texts of its tokens, in order.\<close>

fun yield :: "cst \<Rightarrow> string list" where
  "yield (Anon t) = [t]"
| "yield (Aux t) = [t]"
| "yield (Leaf k t) = [t]"
| "yield (Node k cs) = concat (map (\<lambda>c. yield (snd c)) cs)"

text \<open>
  The children that stand for a symbol in an unlabelled position of a rule, and the test
  that one child is such a child. An expression of only atoms and alternatives matches
  single children.
\<close>

definition sym_rx :: "string \<Rightarrow> (string \<times> elem) rx" where
  "sym_rx s = compile rule_of depth [] (Sym s)"

definition is_a :: "string \<Rightarrow> string \<times> cst \<Rightarrow> bool" where
  "is_a s c = accepts atom_sat (sym_rx s) [c]"

fun single :: "'a rx \<Rightarrow> bool" where
  "single Never = True"
| "single (Atom a) = True"
| "single (Alt r s) = (single r \<and> single s)"
| "single r = False"

section \<open>The lexer's choice between tokens\<close>

text \<open>The lexical precedence that \<open>prec\<close> gives a token; 0 without one.\<close>

fun token_prec :: "rule \<Rightarrow> int" where
  "token_prec (Prec n r) = n"
| "token_prec (Prec_left n r) = n"
| "token_prec (Prec_right n r) = n"
| "token_prec (Token r) = token_prec r"
| "token_prec (Token_immediate r) = token_prec r"
| "token_prec r = 0"

text \<open>
  The tokens with which a rule can begin, each with the field under which it stands, its
  lexical precedence and its pattern.
\<close>

fun first_tokens ::
  "(string \<Rightarrow> rule option) \<Rightarrow> nat \<Rightarrow> string \<Rightarrow> rule \<Rightarrow> (string \<times> int \<times> regex) list" where
  "first_tokens G n f Blank = []"
| "first_tokens G n f (Str s) = [(f, 0, lit s)]"
| "first_tokens G n f (Pat r) = [(f, 0, r)]"
| "first_tokens G n f (Token r) =
     (case token_regex r of None \<Rightarrow> [] | Some x \<Rightarrow> [(f, token_prec r, x)])"
| "first_tokens G n f (Token_immediate r) =
     (case token_regex r of None \<Rightarrow> [] | Some x \<Rightarrow> [(f, token_prec r, x)])"
| "first_tokens G n f (Sym s) =
     (case n of
        0 \<Rightarrow> []
      | Suc m \<Rightarrow> (case G s of None \<Rightarrow> [] | Some r \<Rightarrow> first_tokens G m f r))"
| "first_tokens G n f (Seq []) = []"
| "first_tokens G n f (Seq (r # rs)) =
     first_tokens G n f r
     @ (if nullable (compile G n f r) then first_tokens G n f (Seq rs) else [])"
| "first_tokens G n f (Choice rs) = concat (map (first_tokens G n f) rs)"
| "first_tokens G n f (Repeat r) = first_tokens G n f r"
| "first_tokens G n f (Repeat1 r) = first_tokens G n f r"
| "first_tokens G n f (Prec p r) = first_tokens G n f r"
| "first_tokens G n f (Prec_left p r) = first_tokens G n f r"
| "first_tokens G n f (Prec_right p r) = first_tokens G n f r"
| "first_tokens G n f (Field g r) = first_tokens G n g r"
| "first_tokens G n f (Alias r named a) = first_tokens G n f r"

text \<open>
  Among the tokens that are valid at a position and match a prefix of the input, the
  lexer takes one of the highest lexical precedence; at equal precedence the one with
  the longest match; at equal length the one that comes first (the generator prefers a
  string to a pattern before that; the tokens below never tie in length at equal
  precedence).
\<close>

fun lex_pick :: "(string \<times> int \<times> regex) list \<Rightarrow> string \<Rightarrow> (string \<times> int \<times> nat) option" where
  "lex_pick [] s = None"
| "lex_pick ((f, p, r) # cs) s =
     (case re_longest r s of
        None \<Rightarrow> lex_pick cs s
      | Some n \<Rightarrow>
          (case lex_pick cs s of
             None \<Rightarrow> Some (f, p, n)
           | Some (g, q, m) \<Rightarrow>
               if p < q \<or> (p = q \<and> n < m) then Some (g, q, m) else Some (f, p, n)))"

datatype comment_class = Plain | Outer_doc | Inner_doc

text \<open>What may follow the two slashes of a line comment: the second member of the rule.\<close>

definition after_slashes :: rule where
  "after_slashes = (case line_comment of Seq [s, c] \<Rightarrow> c | _ \<Rightarrow> Blank)"

text \<open>
  The class of a line comment, from the text that follows its two slashes: the token
  that the lexer picks there stands under the field \<open>outer\<close>, under the field \<open>inner\<close>,
  or under neither.
\<close>

definition classify_line_comment :: "string \<Rightarrow> comment_class option" where
  "classify_line_comment rest =
     map_option
       (\<lambda>(f, p, n). if f = ''outer'' then Outer_doc else if f = ''inner'' then Inner_doc else Plain)
       (lex_pick (first_tokens rule_of depth [] after_slashes) rest)"

section \<open>Operator expressions: how precedence and associativity decide the tree\<close>

text \<open>
  The operator productions are read off the rules: an infix production
  \<open>seq(_expression, op, _expression)\<close>, a prefix production \<open>seq(op, _expression)\<close> and a
  postfix production \<open>seq(_expression, op)\<close>, each with the precedence and the
  associativity of the \<open>prec\<close> wrapper around it, one production for each operator
  string. The alternatives of a choice under one wrapper share its precedence. Of the
  forms of a range, the infix ones and the postfix one are modelled; the range that
  starts with \<open>..\<close> and the one that is \<open>..\<close> alone are not.
\<close>

datatype assoc = NoAssoc | LeftAssoc | RightAssoc
datatype shape = Prefix | Infix | Postfix

record production =
  p_shape :: shape
  p_kind :: string
  p_labels :: "string list"
  p_operator :: string
  p_prec :: int
  p_assoc :: assoc

fun label_of :: "rule \<Rightarrow> string" where
  "label_of (Field f r) = f"
| "label_of r = ''''"

fun operators :: "rule \<Rightarrow> string list" where
  "operators (Str s) = [s]"
| "operators (Choice rs) = concat (map operators rs)"
| "operators (Field f r) = operators r"
| "operators r = []"

fun is_operand :: "rule \<Rightarrow> bool" where
  "is_operand (Sym s) = (s = ''_expression'')"
| "is_operand (Field f r) = is_operand r"
| "is_operand r = False"

fun shapes :: "string \<Rightarrow> int \<Rightarrow> assoc \<Rightarrow> rule \<Rightarrow> production list" where
  "shapes k n a (Seq [x, y, z]) =
     (if is_operand x \<and> is_operand z
      then map (\<lambda>s. \<lparr>p_shape = Infix, p_kind = k, p_labels = map label_of [x, y, z],
                      p_operator = s, p_prec = n, p_assoc = a\<rparr>) (operators y)
      else [])"
| "shapes k n a (Seq [x, y]) =
     (if is_operand y
      then map (\<lambda>s. \<lparr>p_shape = Prefix, p_kind = k, p_labels = map label_of [x, y],
                      p_operator = s, p_prec = n, p_assoc = a\<rparr>) (operators x)
      else if is_operand x
      then map (\<lambda>s. \<lparr>p_shape = Postfix, p_kind = k, p_labels = map label_of [x, y],
                      p_operator = s, p_prec = n, p_assoc = a\<rparr>) (operators y)
      else [])"
| "shapes k n a (Choice rs) = concat (map (shapes k n a) rs)"
| "shapes k n a r = []"

fun productions :: "string \<Rightarrow> rule \<Rightarrow> production list" where
  "productions k (Choice rs) = concat (map (productions k) rs)"
| "productions k (Prec n r) = shapes k n NoAssoc r"
| "productions k (Prec_left n r) = shapes k n LeftAssoc r"
| "productions k (Prec_right n r) = shapes k n RightAssoc r"
| "productions k r = []"

definition operator_productions :: "production list" where
  "operator_productions =
     productions ''unary_expression'' unary_expression
     @ productions ''try_expression'' try_expression
     @ productions ''binary_expression'' binary_expression
     @ productions ''assignment_expression'' assignment_expression
     @ productions ''compound_assignment_expr'' compound_assignment_expr
     @ filter (\<lambda>p. p_shape p \<noteq> Prefix) (productions ''range_expression'' range_expression)"

definition find_production :: "shape \<Rightarrow> string \<Rightarrow> production option" where
  "find_production sh s = find (\<lambda>p. p_shape p = sh \<and> p_operator p = s) operator_productions"

text \<open>
  Field access, \<open>.await\<close>, casts and calls continue an operand like a postfix operator,
  with a field name, the keyword, a type or an argument list after the first token; a
  closure starts an operand like a prefix operator, with its parameter list. Their
  productions take the precedence and the associativity of the wrapper of their rules
  and the field names of the members of the rule; of the members of a closure, the
  parameters and the body are the ones modelled. References and index expressions are
  not modelled.
\<close>

fun rule_assoc :: "rule \<Rightarrow> assoc" where
  "rule_assoc (Prec_left n r) = LeftAssoc"
| "rule_assoc (Prec_right n r) = RightAssoc"
| "rule_assoc r = NoAssoc"

fun rule_body :: "rule \<Rightarrow> rule" where
  "rule_body (Prec n r) = r"
| "rule_body (Prec_left n r) = r"
| "rule_body (Prec_right n r) = r"
| "rule_body r = r"

definition the_prec :: "rule \<Rightarrow> int" where
  "the_prec r = (case rule_prec r of Some n \<Rightarrow> n | None \<Rightarrow> 0)"

fun labels :: "rule \<Rightarrow> string list" where
  "labels (Seq rs) = map label_of rs"
| "labels r = []"

definition rule_production :: "shape \<Rightarrow> string \<Rightarrow> string \<Rightarrow> rule \<Rightarrow> production" where
  "rule_production sh k s r =
     \<lparr>p_shape = sh, p_kind = k, p_labels = labels (rule_body r), p_operator = s,
      p_prec = the_prec r, p_assoc = rule_assoc r\<rparr>"

definition field_production :: production where
  "field_production = rule_production Postfix ''field_expression'' ''.'' field_expression"

definition await_production :: production where
  "await_production = rule_production Postfix ''await_expression'' ''.'' await_expression"

definition cast_production :: production where
  "cast_production = rule_production Postfix ''type_cast_expression'' ''as'' type_cast_expression"

definition call_production :: production where
  "call_production = rule_production Postfix ''call_expression'' ''('' call_expression"

definition closure_production :: production where
  "closure_production =
     \<lparr>p_shape = Prefix, p_kind = ''closure_expression'', p_labels = [''parameters'', ''body''],
      p_operator = ''|'', p_prec = the_prec closure_expression,
      p_assoc = rule_assoc closure_expression\<rparr>"

text \<open>
  The tokens of an expression, as the lexer delivers them: an identifier with its text
  (the word token of the grammar, or one of the reserved keywords, which stand where a
  name can stand), and any other token, a punctuation mark or a keyword, by its text.
\<close>

datatype token = Ident string | Punct string

definition identifier_node :: "string \<Rightarrow> cst" where
  "identifier_node x = Node ''name'' [('''', Leaf ''identifier'' x)]"

definition is_identifier :: "string \<Rightarrow> bool" where
  "is_identifier x = (case token_regex identifier_token of Some r \<Rightarrow> re_match r x | None \<Rightarrow> False)"

definition reserved_keywords :: "string list" where
  "reserved_keywords = (case u_reserved_keyword of Alias r named a \<Rightarrow> operators r | _ \<Rightarrow> [])"

text \<open>
  The node of a name in the place of an expression or of a pattern: a reserved keyword
  is a token with the alias \<open>name\<close>, an identifier is the child of a \<open>name\<close> node. In the
  place of a field name or of a type name the rule \<open>name\<close> stands under an alias; the
  reserved keywords do not make a field name of their own, and as a type they start a
  generic type, which is not modelled.
\<close>

definition name_node :: "string \<Rightarrow> cst option" where
  "name_node x =
     (if x \<in> set reserved_keywords then Some (Leaf ''name'' x)
      else if is_identifier x then Some (identifier_node x)
      else None)"

definition field_name_node :: "string \<Rightarrow> cst option" where
  "field_name_node x =
     (if is_identifier x then Some (Node ''field_name'' [('''', Leaf ''identifier'' x)]) else None)"

definition type_name_node :: "string \<Rightarrow> cst option" where
  "type_name_node x =
     (if is_identifier x \<and> x \<notin> set reserved_keywords
      then Some (Node ''type_name'' [('''', Leaf ''identifier'' x)]) else None)"

text \<open>
  After a type name, the tokens \<open>::\<close>, \<open>(\<close> and \<open>!\<close> and the token \<open><\<close> of type
  arguments go on with the type (a scoped type name, a function type, a macro
  invocation, a generic type); the \<open><\<close> of type arguments has a lexical precedence
  and so is read at the start of every operator that begins with \<open><\<close>. These types are
  not modelled.
\<close>

fun continues_type :: "token list \<Rightarrow> bool" where
  "continues_type (Punct s # ts) = (s \<in> set [''::'', ''('', ''!''] \<or> take 1 s = ''<'')"
| "continues_type ts = False"

text \<open>
  What continues an operand at the token \<open>s\<close>, with the tokens \<open>ts\<close> after it: the
  production, the members of the new node after the operand that are read at once,
  and the tokens that remain.
\<close>

definition suffix :: "string \<Rightarrow> token list \<Rightarrow> (production \<times> cst list \<times> token list) option" where
  "suffix s ts =
     (case find_production Postfix s of
        Some q \<Rightarrow> Some (q, [Anon s], ts)
      | None \<Rightarrow>
          if s = ''.'' then
            (case ts of
               Ident x # ts' \<Rightarrow>
                 map_option (\<lambda>n. (field_production, [Anon ''.'', n], ts')) (field_name_node x)
             | Punct k # ts' \<Rightarrow>
                 if k = ''await'' then Some (await_production, [Anon ''.'', Anon ''await''], ts')
                 else None
             | [] \<Rightarrow> None)
          else if s = ''as'' then
            (case ts of
               Ident x # ts' \<Rightarrow>
                 if continues_type ts' then None
                 else map_option (\<lambda>n. (cast_production, [Anon ''as'', n], ts')) (type_name_node x)
             | _ \<Rightarrow> None)
          else if s = ''('' then
            (case ts of
               Punct k # ts' \<Rightarrow>
                 if k = '')''
                 then Some (call_production,
                        [Node ''arguments'' [('''', Anon ''(''), ('''', Anon '')'')]], ts')
                 else None
             | _ \<Rightarrow> None)
          else None)"

text \<open>
  An operator with an infix production is shifted as such. When it has a postfix
  production too (the range \<open>a..\<close>), the rule is complete after the operator and can
  also go on with an operand: the generator shifts what can only start an operand, and
  where the next token can also follow the complete rule it compares the precedence of
  the rule with itself and, the rule being left-associative, reduces. So the operator
  is infix before an identifier and postfix before a token that can follow the range. A
  token that can only start an operand, as \<open>!\<close>, has no reading after an operand here,
  so that the result is \<open>None\<close> for it.
\<close>

definition next_production ::
  "string \<Rightarrow> token list \<Rightarrow> (production \<times> cst list \<times> token list) option" where
  "next_production s ts =
     (case find_production Infix s of
        None \<Rightarrow> suffix s ts
      | Some q \<Rightarrow>
          (case find_production Postfix s of
             None \<Rightarrow> Some (q, [Anon s], ts)
           | Some r \<Rightarrow>
               (case ts of
                  Ident x # ts' \<Rightarrow> Some (q, [Anon s], ts)
                | _ \<Rightarrow> Some (r, [Anon s], ts))))"

text \<open>
  The parameters of a closure after the opening bar: names, separated by commas, up to
  the closing bar.
\<close>

fun closure_rest :: "token list \<Rightarrow> ((string \<times> cst) list \<times> token list) option" where
  "closure_rest (Punct s # Ident x # ts) =
     (if s = '','' then
        (case name_node x of
           Some n \<Rightarrow>
             map_option (\<lambda>(cs, r). (('''', Anon '','') # ('''', n) # cs, r)) (closure_rest ts)
         | None \<Rightarrow> None)
      else if s = ''|'' then Some ([('''', Anon ''|'')], Ident x # ts)
      else None)"
| "closure_rest (Punct s # ts) = (if s = ''|'' then Some ([('''', Anon ''|'')], ts) else None)"
| "closure_rest ts = None"

definition closure_parameters_of :: "token list \<Rightarrow> (cst \<times> token list) option" where
  "closure_parameters_of ts =
     (case ts of
        Punct s # ts' \<Rightarrow>
          if s = ''|''
          then Some (Node ''closure_parameters'' [('''', Anon ''|''), ('''', Anon ''|'')], ts')
          else None
      | Ident x # ts' \<Rightarrow>
          (case name_node x of
             Some n \<Rightarrow>
               map_option
                 (\<lambda>(cs, r). (Node ''closure_parameters'' (('''', Anon ''|'') # ('''', n) # cs), r))
                 (closure_rest ts')
           | None \<Rightarrow> None)
      | [] \<Rightarrow> None)"

text \<open>
  The LR parser of these productions, on a stack. After an operand, a further operator
  can be shifted or the production on top of the stack can be reduced; the generator
  settles such a conflict at generation time: the higher precedence wins, and at equal
  precedence a left-associative production is reduced (it ends earlier), a
  right-associative one lets the shift go ahead (it ends later), and one with no
  associativity leaves the conflict open. A production that continues an operand like a
  postfix operator is complete once its tokens are shifted. The function of a call is
  an expression that is no range (\<open>_expression_except_range\<close>). The result is \<open>None\<close>
  for tokens that are not an expression of the forms modelled here.
\<close>

datatype entry = Operand cst | Pending production | Closure cst

datatype action = Shift | Reduce "entry list" | Conflict

definition fits :: "production \<Rightarrow> cst \<Rightarrow> bool" where
  "fits q e = (\<not> (p_kind q = ''call_expression'' \<and> kind_of e = Some ''range_expression''))"

definition build :: "production \<Rightarrow> cst list \<Rightarrow> cst" where
  "build p cs = Node (p_kind p) (zip (p_labels p) cs)"

fun reduce_top :: "entry list \<Rightarrow> (production \<times> entry list) option" where
  "reduce_top (Operand r # Pending p # st) =
     (case p_shape p of
        Prefix \<Rightarrow> Some (p, Operand (build p [Anon (p_operator p), r]) # st)
      | Infix \<Rightarrow>
          (case st of
             Operand l # st' \<Rightarrow> Some (p, Operand (build p [l, Anon (p_operator p), r]) # st')
           | _ \<Rightarrow> None)
      | Postfix \<Rightarrow> None)"
| "reduce_top (Operand r # Closure ps # st) =
     Some (closure_production, Operand (build closure_production [ps, r]) # st)"
| "reduce_top st = None"

fun resolve :: "(production \<times> entry list) option \<Rightarrow> production \<Rightarrow> action" where
  "resolve None q = Shift"
| "resolve (Some (p, st')) q =
     (if p_prec q < p_prec p then Reduce st'
      else if p_prec p < p_prec q then Shift
      else case p_assoc p of LeftAssoc \<Rightarrow> Reduce st' | RightAssoc \<Rightarrow> Shift | NoAssoc \<Rightarrow> Conflict)"

text \<open>Every reduction shortens the stack and every shift the input, so the parser terminates.\<close>

lemma reduce_top_shorter: "reduce_top st = Some (p, st') \<Longrightarrow> length st' < length st"
  by (induction st rule: reduce_top.induct) (auto split: shape.splits list.splits entry.splits)

lemma resolve_shorter: "resolve (reduce_top st) q = Reduce st' \<Longrightarrow> length st' < length st"
  by (cases "reduce_top st") (auto split: if_splits assoc.splits dest: reduce_top_shorter)

lemma next_production_shorter:
  "next_production s ts = Some (q, cs, ts') \<Longrightarrow> length ts' \<le> length ts"
  by (auto simp: next_production_def suffix_def
      split: option.splits if_splits list.splits token.splits)

lemma closure_rest_shorter: "closure_rest ts = Some (cs, ts') \<Longrightarrow> length ts' \<le> length ts"
  by (induction ts arbitrary: cs ts' rule: closure_rest.induct)
     (fastforce split: if_splits option.splits)+

lemma closure_parameters_shorter:
  "closure_parameters_of ts = Some (ps, ts') \<Longrightarrow> length ts' \<le> length ts"
  by (auto simp: closure_parameters_of_def
      split: option.splits if_splits list.splits token.splits dest: closure_rest_shorter)

function (sequential) parse_loop :: "entry list \<Rightarrow> token list \<Rightarrow> cst option" where
  "parse_loop (Operand e # below) [] =
     (case reduce_top (Operand e # below) of
        Some (p, st') \<Rightarrow> parse_loop st' []
      | None \<Rightarrow> if below = [] then Some e else None)"
| "parse_loop (Operand e # below) (Ident x # ts) = None"
| "parse_loop (Operand e # below) (Punct s # ts) =
     (case next_production s ts of
        None \<Rightarrow> None
      | Some (q, cs, ts') \<Rightarrow>
          (case resolve (reduce_top (Operand e # below)) q of
             Reduce st' \<Rightarrow> parse_loop st' (Punct s # ts)
           | Shift \<Rightarrow>
               if p_shape q = Infix then parse_loop (Pending q # Operand e # below) ts'
               else if fits q e then parse_loop (Operand (build q (e # cs)) # below) ts'
               else None
           | Conflict \<Rightarrow> None))"
| "parse_loop st (Ident x # ts) =
     (case name_node x of
        Some e \<Rightarrow> parse_loop (Operand e # st) ts
      | None \<Rightarrow> None)"
| "parse_loop st (Punct s # ts) =
     (if s = ''|'' then
        (case closure_parameters_of ts of
           Some (ps, ts') \<Rightarrow> parse_loop (Closure ps # st) ts'
         | None \<Rightarrow> None)
      else
        (case find_production Prefix s of
           Some q \<Rightarrow> parse_loop (Pending q # st) ts
         | None \<Rightarrow> None))"
| "parse_loop st [] = None"
  by pat_completeness auto

termination
  by (relation "measure (\<lambda>(st, ts). 2 * length ts + length st)")
     (auto dest: reduce_top_shorter resolve_shorter next_production_shorter
        closure_parameters_shorter)

definition parse_expression :: "token list \<Rightarrow> cst option" where
  "parse_expression ts = parse_loop [] ts"

section \<open>Macro patterns: the left-hand side of a macro rule\<close>

text \<open>
  The token patterns between the delimiters of a macro rule's left-hand side, read from
  the lexemes of the input. What the parser looks for is taken from the rules: the
  delimiters from \<open>token_tree_pattern\<close>, the separator pattern and the operators from
  \<open>token_repetition_pattern\<close>, the fragment kinds from \<open>fragment_specifier\<close>, the plain
  tokens from \<open>_non_special_token\<close>.
\<close>

fun alternatives :: "rule \<Rightarrow> rule list" where
  "alternatives (Choice rs) = rs"
| "alternatives r = [r]"

fun literals_of :: "rule \<Rightarrow> string list" where
  "literals_of (Str s) = [s]"
| "literals_of (Choice rs) = concat (map literals_of rs)"
| "literals_of (Repeat1 r) = literals_of r"
| "literals_of (Prec_right n r) = literals_of r"
| "literals_of r = []"

definition delimiters :: "(string \<times> string) list" where
  "delimiters =
     concat (map (\<lambda>a. case a of Seq [Str l, b, Str r] \<Rightarrow> [(l, r)] | _ \<Rightarrow> [])
       (alternatives token_tree_pattern))"

definition repetition_separator :: "regex option" where
  "repetition_separator =
     (case token_repetition_pattern of
        Seq [a, b, c, d, Choice [Pat r, Blank], e] \<Rightarrow> Some r
      | _ \<Rightarrow> None)"

definition repetition_operators :: "string list" where
  "repetition_operators =
     (case token_repetition_pattern of
        Seq [a, b, c, d, s, e] \<Rightarrow> literals_of e
      | _ \<Rightarrow> [])"

definition fragment_kinds :: "string list" where
  "fragment_kinds = literals_of fragment_specifier"

definition is_metavariable :: "string \<Rightarrow> bool" where
  "is_metavariable l = (case token_regex metavariable of Some r \<Rightarrow> re_match r l | None \<Rightarrow> False)"

text \<open>
  A token that is neither a delimiter nor starts with \<open>$\<close>: one of the string literals of
  \<open>_non_special_token\<close> (keywords and punctuation), a boolean literal, or an identifier,
  which is a name. The other literals are not modelled.
\<close>

definition non_special :: "string \<Rightarrow> cst option" where
  "non_special l =
     (if l \<in> set (literals_of u_non_special_token) then Some (Anon l)
      else if l \<in> set (literals_of boolean_literal)
      then Some (Node ''boolean_literal'' [('''', Anon l)])
      else if is_identifier l then Some (identifier_node l)
      else None)"

text \<open>
  After a metavariable, a colon can be shifted, to go on with a binding, or the
  metavariable can be reduced to a token pattern of its own, the colon being a
  punctuation token. The two productions are the rule \<open>token_binding_pattern\<close> and the
  alternative \<open>metavariable\<close> of \<open>_token_pattern\<close>, and the conflict is settled as for
  expressions, by their precedences. Once the colon is shifted, a fragment kind has to
  follow.
\<close>

definition metavariable_production :: production where
  "metavariable_production =
     rule_production Postfix ''_token_pattern'' ''''
       (case find (\<lambda>a. rule_body a = Sym ''metavariable'') (alternatives u_token_pattern) of
          Some a \<Rightarrow> a
        | None \<Rightarrow> Blank)"

definition binding_production :: production where
  "binding_production =
     rule_production Postfix ''token_binding_pattern'' '':'' token_binding_pattern"

definition after_metavariable :: "string \<Rightarrow> string list \<Rightarrow> (cst \<times> string list) option" where
  "after_metavariable l ls =
     (case ls of
        [] \<Rightarrow> Some (Leaf ''metavariable'' l, ls)
      | c # ls' \<Rightarrow>
          if c = '':'' then
            (case resolve (Some (metavariable_production, [])) binding_production of
               Shift \<Rightarrow>
                 (case ls' of
                    [] \<Rightarrow> None
                  | f # ls'' \<Rightarrow>
                      if f \<in> set fragment_kinds
                      then Some (build binding_production
                             [Leaf ''metavariable'' l, Anon '':'',
                              Node ''fragment_specifier'' [('''', Anon f)]], ls'')
                      else None)
             | Reduce st \<Rightarrow> Some (Leaf ''metavariable'' l, ls)
             | Conflict \<Rightarrow> None)
          else Some (Leaf ''metavariable'' l, ls))"

text \<open>
  After the closing parenthesis of a repetition: a separator, if the next lexeme is no
  operator and matches the separator pattern, and then an operator. The separator is
  an inline pattern, so an auxiliary token.
\<close>

definition repetition_end :: "string list \<Rightarrow> ((string \<times> cst) list \<times> string list) option" where
  "repetition_end ls =
     (case ls of
        [] \<Rightarrow> None
      | l # ls' \<Rightarrow>
          if l \<in> set repetition_operators then Some ([('''', Anon l)], ls')
          else
            (case repetition_separator of
               None \<Rightarrow> None
             | Some r \<Rightarrow>
                 if re_match r l then
                   (case ls' of
                      [] \<Rightarrow> None
                    | op # ls'' \<Rightarrow>
                        if op \<in> set repetition_operators
                        then Some ([('''', Aux l), ('''', Anon op)], ls'')
                        else None)
                 else None))"

text \<open>
  The parser keeps the members of the pattern that it is reading and, on a stack, the
  patterns around it that are still open, each with the members read before.
\<close>

datatype frame = In_tree string "(string \<times> cst) list" | In_repetition "(string \<times> cst) list"

lemma after_metavariable_shorter:
  "after_metavariable l ls = Some (c, ls') \<Longrightarrow> length ls' \<le> length ls"
  by (auto simp: after_metavariable_def split: list.splits if_splits action.splits)

lemma repetition_end_shorter:
  "repetition_end ls = Some (cs, ls') \<Longrightarrow> length ls' \<le> length ls"
  by (auto simp: repetition_end_def split: list.splits if_splits option.splits)

function (sequential) macro_loop ::
  "frame list \<Rightarrow> (string \<times> cst) list \<Rightarrow> string list \<Rightarrow> (string \<times> cst) list option" where
  "macro_loop [] cs [] = Some cs"
| "macro_loop fs cs [] = None"
| "macro_loop fs cs (l # ls) =
     (if l = ''$'' then
        (case ls of
           [] \<Rightarrow> None
         | l' # ls' \<Rightarrow> if l' = ''('' then macro_loop (In_repetition cs # fs) [] ls' else None)
      else if l \<in> set (map fst delimiters) then macro_loop (In_tree l cs # fs) [] ls
      else if l \<in> set (map snd delimiters) then
        (case fs of
           [] \<Rightarrow> None
         | In_tree opener outer # fs' \<Rightarrow>
             if map_of delimiters opener = Some l
             then macro_loop fs'
                    (outer @ [('''', Node ''token_tree_pattern''
                       (('''', Anon opener) # cs @ [('''', Anon l)]))]) ls
             else None
         | In_repetition outer # fs' \<Rightarrow>
             if l = '')'' then
               (case repetition_end ls of
                  None \<Rightarrow> None
                | Some (tail, ls') \<Rightarrow>
                    macro_loop fs'
                      (outer @ [('''', Node ''token_repetition_pattern''
                         (('''', Anon ''$'') # ('''', Anon ''('') # cs @ ('''', Anon '')'') # tail))])
                      ls')
             else None)
      else if is_metavariable l then
        (case after_metavariable l ls of
           None \<Rightarrow> None
         | Some (c, ls') \<Rightarrow> macro_loop fs (cs @ [('''', c)]) ls')
      else
        (case non_special l of
           None \<Rightarrow> None
         | Some c \<Rightarrow> macro_loop fs (cs @ [('''', c)]) ls))"
  by pat_completeness auto

termination
  by (relation "measure (\<lambda>(fs, cs, ls). length ls)")
     (auto dest: after_metavariable_shorter repetition_end_shorter)

definition parse_token_patterns :: "string list \<Rightarrow> (string \<times> cst) list option" where
  "parse_token_patterns ls = macro_loop [] [] ls"

section \<open>Facts about matching\<close>

lemma accepts_Never [simp]: "accepts sat Never xs = False"
  by (induction xs) auto

lemma accepts_Eps [simp]: "accepts sat Eps xs = (xs = [])"
  by (cases xs) auto

lemma accepts_Atom [simp]: "accepts sat (Atom a) xs = (\<exists>x. xs = [x] \<and> sat a x)"
  by (cases xs) auto

lemma accepts_Alt [simp]: "accepts sat (Alt r s) xs = (accepts sat r xs \<or> accepts sat s xs)"
  by (induction xs arbitrary: r s) auto

lemma accepts_Cat:
  "accepts sat (Cat r s) xs = (\<exists>ys zs. xs = ys @ zs \<and> accepts sat r ys \<and> accepts sat s zs)"
proof (induction xs arbitrary: r)
  case Nil
  then show ?case by simp
next
  case (Cons x xs)
  have split: "(\<exists>ys zs. x # xs = ys @ zs \<and> accepts sat r ys \<and> accepts sat s zs) =
     ((nullable r \<and> accepts sat (deriv sat x s) xs)
      \<or> (\<exists>ys zs. xs = ys @ zs \<and> accepts sat (deriv sat x r) ys \<and> accepts sat s zs))"
    (is "?L = ?R")
  proof
    assume ?L
    then obtain ys zs where h: "x # xs = ys @ zs" "accepts sat r ys" "accepts sat s zs"
      by blast
    show ?R
    proof (cases ys)
      case Nil
      then show ?thesis using h by auto
    next
      case (Cons y ys')
      then have "xs = ys' @ zs" "accepts sat (deriv sat x r) ys'"
        using h by auto
      then show ?thesis using h(3) by blast
    qed
  next
    assume ?R
    then show ?L
    proof
      assume "nullable r \<and> accepts sat (deriv sat x s) xs"
      then have "x # xs = [] @ (x # xs) \<and> accepts sat r [] \<and> accepts sat s (x # xs)"
        by simp
      then show ?L by blast
    next
      assume "\<exists>ys zs. xs = ys @ zs \<and> accepts sat (deriv sat x r) ys \<and> accepts sat s zs"
      then obtain ys zs where "xs = ys @ zs" "accepts sat (deriv sat x r) ys" "accepts sat s zs"
        by blast
      then have "x # xs = (x # ys) @ zs \<and> accepts sat r (x # ys) \<and> accepts sat s zs"
        by simp
      then show ?L by blast
    qed
  qed
  show ?case
    unfolding split by (auto simp: Cons)
qed

lemma accepts_Star_Nil [simp]: "accepts sat (Star r) []"
  by simp

lemma accepts_Star_Cons:
  "accepts sat (Star r) (x # xs) =
     (\<exists>ys zs. xs = ys @ zs \<and> accepts sat r (x # ys) \<and> accepts sat (Star r) zs)"
  by (simp add: accepts_Cat)

lemma accepts_Star_atoms:
  assumes "\<And>ys. accepts sat r ys = (\<exists>y. ys = [y] \<and> P y)"
  shows "accepts sat (Star r) xs = list_all P xs"
proof (induction xs)
  case Nil
  show ?case by simp
next
  case (Cons x xs)
  have "accepts sat (Star r) (x # xs) =
     (\<exists>ys zs. xs = ys @ zs \<and> (\<exists>y. x # ys = [y] \<and> P y) \<and> accepts sat (Star r) zs)"
    unfolding accepts_Star_Cons assms ..
  also have "\<dots> = (P x \<and> accepts sat (Star r) xs)"
    by auto
  finally show ?case by (simp add: Cons)
qed

lemma accepts_lit: "accepts cclass_has (lit s) xs = (xs = s)"
  unfolding lit_def
  by (induction s arbitrary: xs) (auto simp: accepts_Cat)

lemma longest_None:
  "(longest sat r xs = None) = (\<forall>k\<le>length xs. \<not> accepts sat r (take k xs))"
proof (induction xs arbitrary: r)
  case Nil
  show ?case by simp
next
  case (Cons x xs)
  have "(\<forall>k\<le>Suc (length xs). \<not> accepts sat r (take k (x # xs))) =
        (\<not> nullable r \<and> (\<forall>k\<le>length xs. \<not> accepts sat (deriv sat x r) (take k xs)))"
    (is "?L = ?R")
  proof
    assume l: ?L
    have "\<not> accepts sat r (take 0 (x # xs))" using l by blast
    moreover have "\<not> accepts sat (deriv sat x r) (take k xs)" if "k \<le> length xs" for k
      using l [rule_format, of "Suc k"] that by simp
    ultimately show ?R by simp
  next
    assume r: ?R
    show ?L
    proof (intro allI impI)
      fix k assume "k \<le> Suc (length xs)"
      then show "\<not> accepts sat r (take k (x # xs))"
        using r by (cases k) auto
    qed
  qed
  then show ?case
    using Cons [of "deriv sat x r"] by (auto split: option.splits)
qed

lemma longest_Some:
  "(longest sat r xs = Some n) =
     (n \<le> length xs \<and> accepts sat r (take n xs)
      \<and> (\<forall>m. n < m \<and> m \<le> length xs \<longrightarrow> \<not> accepts sat r (take m xs)))"
proof (induction xs arbitrary: r n)
  case Nil
  show ?case by auto
next
  case (Cons x xs)
  show ?case
  proof (cases "longest sat (deriv sat x r) xs")
    case None
    then have no: "\<And>k. k \<le> length xs \<Longrightarrow> \<not> accepts sat (deriv sat x r) (take k xs)"
      by (simp add: longest_None)
    have no': "\<not> accepts sat r (take m (x # xs))" if "0 < m" "m \<le> Suc (length xs)" for m
      using that no [of "m - 1"] by (cases m) auto
    show ?thesis
    proof (cases "nullable r")
      case True
      have "(n = 0) = (n \<le> Suc (length xs) \<and> accepts sat r (take n (x # xs))
        \<and> (\<forall>m. n < m \<and> m \<le> Suc (length xs) \<longrightarrow> \<not> accepts sat r (take m (x # xs))))"
        using no no' True by (cases n) auto
      then show ?thesis using None True by simp
    next
      case False
      have "\<not> (n \<le> Suc (length xs) \<and> accepts sat r (take n (x # xs)))"
        using no False by (cases n) auto
      then show ?thesis using None False by auto
    qed
  next
    case (Some k)
    then have k: "k \<le> length xs" "accepts sat (deriv sat x r) (take k xs)"
      "\<And>m. k < m \<Longrightarrow> m \<le> length xs \<Longrightarrow> \<not> accepts sat (deriv sat x r) (take m xs)"
      using Cons [of "deriv sat x r" k] by auto
    have max: "\<not> accepts sat r (take m (x # xs))" if "Suc k < m" "m \<le> Suc (length xs)" for m
      using that k(3) [of "m - 1"] by (cases m) auto
    have "(Suc k = n) = (n \<le> Suc (length xs) \<and> accepts sat r (take n (x # xs))
        \<and> (\<forall>m. n < m \<and> m \<le> Suc (length xs) \<longrightarrow> \<not> accepts sat r (take m (x # xs))))"
      (is "?A = ?B")
    proof
      assume ?A then show ?B using k max by auto
    next
      assume b: ?B
      show ?A
      proof (rule ccontr)
        assume ne: "Suc k \<noteq> n"
        show False
        proof (cases "n < Suc k")
          case True
          then show False using b k(1) k(2) by (auto dest!: spec [of _ "Suc k"])
        next
          case False
          then have "Suc k < n" using ne by simp
          then show False using max [of n] b by simp
        qed
      qed
    qed
    then show ?thesis using Some by simp
  qed
qed

lemma accepts_Star_Atom:
  "accepts sat (Star (Atom a)) xs = list_all (sat a) xs"
  by (rule accepts_Star_atoms) simp

lemma accepts_Cat_Eps [simp]: "accepts sat (Cat r Eps) xs = accepts sat r xs"
  by (simp add: accepts_Cat)

lemma accepts_Eps_Cat [simp]: "accepts sat (Cat Eps r) xs = accepts sat r xs"
  by (simp add: accepts_Cat)

lemma accepts_Never_Cat [simp]: "accepts sat (Cat Never r) xs = False"
  by (simp add: accepts_Cat)

lemma accepts_Atom_Cat:
  "accepts sat (Cat (Atom a) r) xs = (\<exists>x ys. xs = x # ys \<and> sat a x \<and> accepts sat r ys)"
  by (cases xs) auto

lemma accepts_Star_Atom_Cat:
  "accepts sat (Cat (Star (Atom a)) r) xs =
     (\<exists>ys zs. xs = ys @ zs \<and> list_all (sat a) ys \<and> accepts sat r zs)"
  by (simp add: accepts_Cat accepts_Star_Atom)

lemma single_accepts:
  "single r \<Longrightarrow> accepts sat r xs = (\<exists>x. xs = [x] \<and> accepts sat r [x])"
  by (induction r arbitrary: xs) auto

lemma accepts_Star_single:
  "single r \<Longrightarrow> accepts sat (Star r) xs = list_all (\<lambda>x. accepts sat r [x]) xs"
  by (rule accepts_Star_atoms) (rule single_accepts)

lemma accepts_single_Cat:
  assumes "single r"
  shows "accepts sat (Cat r s) xs =
     (\<exists>x zs. xs = x # zs \<and> accepts sat r [x] \<and> accepts sat s zs)"
proof -
  have "accepts sat (Cat r s) xs =
      (\<exists>ys zs. xs = ys @ zs \<and> (\<exists>x. ys = [x] \<and> accepts sat r [x]) \<and> accepts sat s zs)"
    unfolding accepts_Cat using single_accepts [OF assms, of sat] by simp
  also have "\<dots> = (\<exists>x zs. xs = x # zs \<and> accepts sat r [x] \<and> accepts sat s zs)"
    (is "?A = ?B")
  proof
    assume ?A
    then obtain ys zs x where "xs = ys @ zs" "ys = [x]" "accepts sat r [x]" "accepts sat s zs"
      by blast
    then have "xs = x # zs \<and> accepts sat r [x] \<and> accepts sat s zs"
      by (simp del: accepts.simps)
    then show ?B by blast
  next
    assume ?B
    then obtain x zs where "xs = x # zs" "accepts sat r [x]" "accepts sat s zs"
      by blast
    then have "xs = [x] @ zs \<and> (\<exists>y. [x] = [y] \<and> accepts sat r [y]) \<and> accepts sat s zs"
      by (simp del: accepts.simps)
    then show ?A by blast
  qed
  finally show ?thesis .
qed

lemma longest_nullable: "nullable r \<Longrightarrow> \<exists>n. longest sat r xs = Some n"
proof -
  assume "nullable r"
  then have "accepts sat r (take 0 xs)" by simp
  then have "longest sat r xs \<noteq> None"
    unfolding longest_None by blast
  then show ?thesis by auto
qed

lemma take_eq_length: "take k xs = s \<Longrightarrow> k \<le> length xs \<Longrightarrow> length s = k"
  by auto

lemma take_eq_bound: "take (length s) xs = s \<Longrightarrow> length s \<le> length xs"
proof -
  assume a: "take (length s) xs = s"
  have "length (take (length s) xs) = length s" by (simp only: a)
  then show ?thesis by simp
qed

lemma re_longest_lit:
  "re_longest (lit s) xs = (if take (length s) xs = s then Some (length s) else None)"
proof (cases "take (length s) xs = s")
  case True
  then have len: "length s \<le> length xs"
    by (rule take_eq_bound)
  have "\<not> accepts cclass_has (lit s) (take m xs)" if "length s < m" "m \<le> length xs" for m
  proof
    assume "accepts cclass_has (lit s) (take m xs)"
    then have "take m xs = s" by (simp add: accepts_lit)
    then have "length s = m" using that(2) by (rule take_eq_length)
    then show False using that(1) by simp
  qed
  then have "longest cclass_has (lit s) xs = Some (length s)"
    unfolding longest_Some using True len by (simp add: accepts_lit)
  then show ?thesis using True by (simp add: re_longest_def)
next
  case False
  have "\<not> accepts cclass_has (lit s) (take k xs)" if "k \<le> length xs" for k
  proof
    assume "accepts cclass_has (lit s) (take k xs)"
    then have e: "take k xs = s" by (simp add: accepts_lit)
    then have "length s = k" using that by (rule take_eq_length)
    then show False using e False by simp
  qed
  then have "longest cclass_has (lit s) xs = None"
    unfolding longest_None by blast
  then show ?thesis using False by (simp add: re_longest_def)
qed

section \<open>Looking up rules\<close>

lemma rule_of_simps:
  "rule_of ''source_file'' = Some source_file"
  "rule_of ''_statement'' = Some u_statement"
  "rule_of ''_declaration_statement'' = Some u_declaration_statement"
  "rule_of ''_token_pattern'' = Some u_token_pattern"
  "rule_of ''token_tree_pattern'' = Some token_tree_pattern"
  "rule_of ''token_binding_pattern'' = Some token_binding_pattern"
  "rule_of ''token_repetition_pattern'' = Some token_repetition_pattern"
  "rule_of ''fragment_specifier'' = Some fragment_specifier"
  "rule_of ''_non_special_token'' = Some u_non_special_token"
  "rule_of ''inner_attribute_item'' = Some inner_attribute_item"
  "rule_of ''_attribute'' = Some u_attribute"
  "rule_of ''let_declaration'' = Some let_declaration"
  "rule_of ''_type'' = Some u_type"
  "rule_of ''_expression_except_range'' = Some u_expression_except_range"
  "rule_of ''_expression'' = Some u_expression"
  "rule_of ''_expression_ending_with_block'' = Some u_expression_ending_with_block"
  "rule_of ''range_expression'' = Some range_expression"
  "rule_of ''unary_expression'' = Some unary_expression"
  "rule_of ''try_expression'' = Some try_expression"
  "rule_of ''reference_expression'' = Some reference_expression"
  "rule_of ''binary_expression'' = Some binary_expression"
  "rule_of ''assignment_expression'' = Some assignment_expression"
  "rule_of ''compound_assignment_expr'' = Some compound_assignment_expr"
  "rule_of ''type_cast_expression'' = Some type_cast_expression"
  "rule_of ''call_expression'' = Some call_expression"
  "rule_of ''parenthesized_expression'' = Some parenthesized_expression"
  "rule_of ''tuple_expression'' = Some tuple_expression"
  "rule_of ''unit_expression'' = Some unit_expression"
  "rule_of ''closure_expression'' = Some closure_expression"
  "rule_of ''closure_parameters'' = Some closure_parameters"
  "rule_of ''arguments'' = Some arguments"
  "rule_of ''boolean_literal'' = Some boolean_literal"
  "rule_of ''index_expression'' = Some index_expression"
  "rule_of ''await_expression'' = Some await_expression"
  "rule_of ''field_expression'' = Some field_expression"
  "rule_of ''_pattern'' = Some u_pattern"
  "rule_of ''_literal'' = Some u_literal"
  "rule_of ''_literal_pattern'' = Some u_literal_pattern"
  "rule_of ''line_comment'' = Some line_comment"
  "rule_of ''_line_doc_comment_marker'' = Some u_line_doc_comment_marker"
  "rule_of ''_inner_line_doc_comment_marker'' = Some u_inner_line_doc_comment_marker"
  "rule_of ''_outer_line_doc_comment_marker'' = Some u_outer_line_doc_comment_marker"
  "rule_of ''name'' = Some name"
  "rule_of ''identifier'' = Some identifier_token"
  "rule_of ''shebang'' = Some shebang"
  "rule_of ''_reserved_keyword'' = Some u_reserved_keyword"
  "rule_of ''_type_name'' = Some u_type_name"
  "rule_of ''_field_name'' = Some u_field_name"
  "rule_of ''metavariable'' = Some metavariable"
  by (simp_all add: rule_of_def rules_def)

lemmas expression_defs = u_expression_def u_expression_except_range_def u_literal_def
  u_reserved_keyword_def u_expression_ending_with_block_def

section \<open>Precedence and associativity of expressions\<close>

lemma prec_order_complete: "set prec_order = UNIV"
proof -
  have "x \<in> set prec_order" for x
    by (cases x) (simp_all add: prec_order_def)
  then show ?thesis by auto
qed

lemma prec_order_descends: "sorted_wrt (\<lambda>a b. PREC b < PREC a) prec_order"
  by (simp add: prec_order_def)

lemma rule_levels:
  "map rule_prec [call_expression, index_expression, field_expression, await_expression,
      try_expression, unary_expression, reference_expression, type_cast_expression,
      range_expression, assignment_expression, compound_assignment_expr, closure_expression]
   = map (\<lambda>l. Some (PREC l)) [prec_call, prec_call, prec_field, prec_field,
      prec_try, prec_unary, prec_unary, prec_cast,
      prec_range, prec_assign, prec_assign, prec_closure]"
  by (simp add: call_expression_def index_expression_def field_expression_def
      await_expression_def try_expression_def unary_expression_def reference_expression_def
      type_cast_expression_def range_expression_def assignment_expression_def
      compound_assignment_expr_def closure_expression_def)

text \<open>The operator productions that the rules give, with precedence and associativity.\<close>

lemmas production_defs = find_production_def operator_productions_def
    unary_expression_def try_expression_def binary_expression_def assignment_expression_def
    compound_assignment_expr_def range_expression_def binary_table_def

lemma infix_table:
  "map (\<lambda>p. (p_kind p, p_operator p, p_prec p, p_assoc p))
     (filter (\<lambda>p. p_shape p = Infix) operator_productions) =
   map (\<lambda>(s, l). (''binary_expression'', s, PREC l, LeftAssoc))
     [(''&&'', prec_and), (''||'', prec_or), (''&'', prec_bitand), (''|'', prec_bitor),
      (''^'', prec_bitxor), (''=='', prec_comparative), (''!='', prec_comparative),
      (''<'', prec_comparative), (''<='', prec_comparative), (''>'', prec_comparative),
      (''>='', prec_comparative), (''<<'', prec_shift), (''>>'', prec_shift),
      (''+'', prec_additive), (''-'', prec_additive), (''*'', prec_multiplicative),
      (''/'', prec_multiplicative), (''%'', prec_multiplicative)]
   @ [(''assignment_expression'', ''='', PREC prec_assign, LeftAssoc)]
   @ map (\<lambda>s. (''compound_assignment_expr'', s, PREC prec_assign, LeftAssoc))
     [''+='', ''-='', ''*='', ''/='', ''%='', ''&='', ''|='', ''^='', ''<<='', ''>>='']
   @ map (\<lambda>s. (''range_expression'', s, PREC prec_range, LeftAssoc))
     [''..'', ''...'', ''..='']"
  by (simp add: production_defs)

lemma prefix_postfix_table:
  "map (\<lambda>p. (p_shape p, p_kind p, p_operator p, p_prec p, p_assoc p))
     (filter (\<lambda>p. p_shape p \<noteq> Infix) operator_productions) =
   [(Prefix, ''unary_expression'', ''-'', PREC prec_unary, NoAssoc),
    (Prefix, ''unary_expression'', ''*'', PREC prec_unary, NoAssoc),
    (Prefix, ''unary_expression'', ''!'', PREC prec_unary, NoAssoc),
    (Postfix, ''try_expression'', ''?'', PREC prec_try, NoAssoc),
    (Postfix, ''range_expression'', ''..'', PREC prec_range, LeftAssoc)]"
  by (simp add: production_defs)

lemma suffix_table:
  "map (\<lambda>p. (p_shape p, p_kind p, p_labels p, p_operator p, p_prec p, p_assoc p))
     [call_production, field_production, await_production, cast_production, closure_production] =
   [(Postfix, ''call_expression'', [''function'', ''arguments''], ''('', PREC prec_call, NoAssoc),
    (Postfix, ''field_expression'', [''value'', '''', ''field''], ''.'', PREC prec_field, NoAssoc),
    (Postfix, ''await_expression'', ['''', '''', ''''], ''.'', PREC prec_field, NoAssoc),
    (Postfix, ''type_cast_expression'', [''value'', '''', ''type''], ''as'', PREC prec_cast,
     LeftAssoc),
    (Prefix, ''closure_expression'', [''parameters'', ''body''], ''|'', PREC prec_closure,
     NoAssoc)]"
  by (simp add: call_production_def field_production_def await_production_def
      cast_production_def closure_production_def rule_production_def the_prec_def
      call_expression_def field_expression_def await_expression_def type_cast_expression_def
      closure_expression_def)

lemma binary_levels:
  "map (\<lambda>p. (p_operator p, p_prec p))
     (filter (\<lambda>p. p_kind p = ''binary_expression'') operator_productions)
   = map (\<lambda>(s, l). (s, PREC l))
     [(''&&'', prec_and), (''||'', prec_or), (''&'', prec_bitand), (''|'', prec_bitor),
      (''^'', prec_bitxor), (''=='', prec_comparative), (''!='', prec_comparative),
      (''<'', prec_comparative), (''<='', prec_comparative), (''>'', prec_comparative),
      (''>='', prec_comparative), (''<<'', prec_shift), (''>>'', prec_shift),
      (''+'', prec_additive), (''-'', prec_additive), (''*'', prec_multiplicative),
      (''/'', prec_multiplicative), (''%'', prec_multiplicative)]"
  by (simp add: production_defs)

lemma infix_left:
  "list_all (\<lambda>p. p_shape p \<noteq> Infix \<or> p_assoc p = LeftAssoc) operator_productions"
  by (simp add: production_defs)

lemma find_infix:
  assumes "find_production Infix s = Some p"
  shows "p_shape p = Infix" "p_operator p = s" "p_assoc p = LeftAssoc"
proof -
  from assms have p: "p \<in> set operator_productions" "p_shape p = Infix \<and> p_operator p = s"
    unfolding find_production_def by (auto simp: find_Some_iff in_set_conv_nth)
  then show "p_shape p = Infix" "p_operator p = s" by simp_all
  then show "p_assoc p = LeftAssoc"
    using infix_left p(1) by (auto simp: list_all_iff)
qed

lemma kind_of_identifier_node: "kind_of (identifier_node x) = Some ''name''"
  by (simp add: identifier_node_def)

lemma names:
  "name_node ''a'' = Some (identifier_node ''a'')"
  "name_node ''b'' = Some (identifier_node ''b'')"
  "name_node ''c'' = Some (identifier_node ''c'')"
  "name_node ''f'' = Some (identifier_node ''f'')"
  "name_node ''x'' = Some (identifier_node ''x'')"
  "field_name_node ''b'' = Some (Node ''field_name'' [('''', Leaf ''identifier'' ''b'')])"
  "type_name_node ''T'' = Some (Node ''type_name'' [('''', Leaf ''identifier'' ''T'')])"
  by (simp_all add: name_node_def field_name_node_def type_name_node_def reserved_keywords_def
      u_reserved_keyword_def is_identifier_def identifier_token_def re_match_def)

lemma production_lookups:
  "find_production Prefix ''-'' = Some \<lparr>p_shape = Prefix, p_kind = ''unary_expression'',
     p_labels = ['''', ''''], p_operator = ''-'', p_prec = 12, p_assoc = NoAssoc\<rparr>"
  "find_production Postfix ''?'' = Some \<lparr>p_shape = Postfix, p_kind = ''try_expression'',
     p_labels = ['''', ''''], p_operator = ''?'', p_prec = 13, p_assoc = NoAssoc\<rparr>"
  "find_production Postfix ''.'' = None"
  "find_production Postfix ''+'' = None"
  "find_production Postfix ''*'' = None"
  "find_production Postfix ''='' = None"
  "find_production Postfix ''+='' = None"
  "find_production Infix ''?'' = None"
  "find_production Infix ''('' = None"
  "find_production Postfix ''as'' = None"
  "find_production Postfix ''('' = None"
  "find_production Infix ''.'' = None"
  "find_production Infix ''as'' = None"
  "find_production Infix ''+'' = Some \<lparr>p_shape = Infix, p_kind = ''binary_expression'',
     p_labels = [''left'', ''operator'', ''right''], p_operator = ''+'', p_prec = 9,
     p_assoc = LeftAssoc\<rparr>"
  "find_production Infix ''*'' = Some \<lparr>p_shape = Infix, p_kind = ''binary_expression'',
     p_labels = [''left'', ''operator'', ''right''], p_operator = ''*'', p_prec = 10,
     p_assoc = LeftAssoc\<rparr>"
  "find_production Infix ''='' = Some \<lparr>p_shape = Infix, p_kind = ''assignment_expression'',
     p_labels = [''left'', '''', ''right''], p_operator = ''='', p_prec = 0,
     p_assoc = LeftAssoc\<rparr>"
  "find_production Infix ''+='' = Some \<lparr>p_shape = Infix, p_kind = ''compound_assignment_expr'',
     p_labels = [''left'', ''operator'', ''right''], p_operator = ''+='', p_prec = 0,
     p_assoc = LeftAssoc\<rparr>"
  by (simp_all add: production_defs)

lemma suffix_productions:
  "call_production = \<lparr>p_shape = Postfix, p_kind = ''call_expression'',
     p_labels = [''function'', ''arguments''], p_operator = ''('', p_prec = 15,
     p_assoc = NoAssoc\<rparr>"
  "field_production = \<lparr>p_shape = Postfix, p_kind = ''field_expression'',
     p_labels = [''value'', '''', ''field''], p_operator = ''.'', p_prec = 14,
     p_assoc = NoAssoc\<rparr>"
  "cast_production = \<lparr>p_shape = Postfix, p_kind = ''type_cast_expression'',
     p_labels = [''value'', '''', ''type''], p_operator = ''as'', p_prec = 11,
     p_assoc = LeftAssoc\<rparr>"
  "closure_production = \<lparr>p_shape = Prefix, p_kind = ''closure_expression'',
     p_labels = [''parameters'', ''body''], p_operator = ''|'', p_prec = - 1,
     p_assoc = NoAssoc\<rparr>"
  by (simp_all add: call_production_def field_production_def cast_production_def
      closure_production_def rule_production_def the_prec_def call_expression_def
      field_expression_def type_cast_expression_def closure_expression_def)

lemmas parse_defs = parse_expression_def next_production_def suffix_def
  closure_parameters_of_def production_lookups suffix_productions names build_def fits_def
  kind_of_identifier_node

lemma shown_identifier_node: "shown (identifier_node x)"
  by (simp add: identifier_node_def)

lemma next_infix:
  "find_production Infix s = Some p \<Longrightarrow>
     next_production s (Ident x # ts) = Some (p, [Anon s], Ident x # ts)"
  by (simp add: next_production_def split: option.splits)

text \<open>
  Two infix operators in a row, whatever they are: the first production is reduced
  before the second operator is shifted unless the second has the higher precedence, so
  the operator of the higher level takes the operand between them, and two of one level
  group to the left.
\<close>

lemma two_infix_operators:
  assumes "find_production Infix s = Some p" "find_production Infix t = Some q"
  shows "parse_expression [Ident ''a'', Punct s, Ident ''b'', Punct t, Ident ''c''] =
     Some (if p_prec p < p_prec q
           then build p [identifier_node ''a'', Anon s,
                  build q [identifier_node ''b'', Anon t, identifier_node ''c'']]
           else build q [build p [identifier_node ''a'', Anon s, identifier_node ''b''],
                  Anon t, identifier_node ''c''])"
proof -
  note p = find_infix [OF assms(1)] and q = find_infix [OF assms(2)]
  show ?thesis
    by (simp add: parse_expression_def names next_infix assms p q)
qed

text \<open>
  A prefix operator before an infix one and an infix operator before \<open>?\<close>, whatever
  they are: the prefix operators are above every infix level, and \<open>?\<close> is above them
  all.
\<close>

lemma prefix_levels:
  "list_all (\<lambda>p. p_shape p \<noteq> Prefix \<or> (p_prec p = 12 \<and> p_operator p \<noteq> ''|''))
     operator_productions"
  by (simp add: production_defs)

lemma infix_levels:
  "list_all (\<lambda>p. p_shape p \<noteq> Infix \<or> p_prec p \<le> 10) operator_productions"
  by (simp add: production_defs)

lemma find_prefix:
  assumes "find_production Prefix s = Some p"
  shows "p_shape p = Prefix" "p_operator p = s" "p_prec p = 12" "s \<noteq> ''|''"
proof -
  from assms have p: "p \<in> set operator_productions" "p_shape p = Prefix \<and> p_operator p = s"
    unfolding find_production_def by (auto simp: find_Some_iff in_set_conv_nth)
  then show "p_shape p = Prefix" "p_operator p = s" by simp_all
  then show "p_prec p = 12" "s \<noteq> ''|''"
    using prefix_levels p(1) by (auto simp: list_all_iff)
qed

lemma find_infix_level:
  assumes "find_production Infix s = Some p"
  shows "p_prec p \<le> 10"
proof -
  from assms have p: "p \<in> set operator_productions" "p_shape p = Infix"
    unfolding find_production_def by (auto simp: find_Some_iff in_set_conv_nth)
  then show ?thesis
    using infix_levels by (auto simp: list_all_iff)
qed

lemma next_try:
  "next_production ''?'' ts =
     Some (\<lparr>p_shape = Postfix, p_kind = ''try_expression'', p_labels = ['''', ''''],
             p_operator = ''?'', p_prec = 13, p_assoc = NoAssoc\<rparr>, [Anon ''?''], ts)"
  by (simp add: next_production_def suffix_def production_lookups)

lemma prefix_then_infix:
  assumes "find_production Prefix u = Some r" "find_production Infix t = Some q"
  shows "parse_expression [Punct u, Ident ''a'', Punct t, Ident ''b''] =
     Some (build q [build r [Anon u, identifier_node ''a''], Anon t, identifier_node ''b''])"
proof -
  note r = find_prefix [OF assms(1)] and q = find_infix [OF assms(2)]
  have "p_prec q < p_prec r"
    using find_infix_level [OF assms(2)] r(3) by simp
  then show ?thesis
    by (simp add: parse_expression_def names next_infix assms r q)
qed

lemma infix_then_try:
  assumes "find_production Infix s = Some p"
  shows "parse_expression [Ident ''a'', Punct s, Ident ''b'', Punct ''?''] =
     Some (build p [identifier_node ''a'', Anon s,
       Node ''try_expression'' [('''', identifier_node ''b''), ('''', Anon ''?'')]])"
proof -
  note p = find_infix [OF assms]
  have "p_prec p < 13"
    using find_infix_level [OF assms] by simp
  then show ?thesis
    by (simp add: parse_expression_def names next_infix next_try assms p build_def fits_def)
qed

lemma range_assign_levels:
  "map (\<lambda>s. map_option (\<lambda>p. (p_kind p, p_prec p)) (find_production Infix s))
        [''..'', ''...'', ''..='', ''='', ''+='']
      = [Some (''range_expression'', PREC prec_range), Some (''range_expression'', PREC prec_range),
         Some (''range_expression'', PREC prec_range),
         Some (''assignment_expression'', PREC prec_assign),
         Some (''compound_assignment_expr'', PREC prec_assign)]"
  by (simp add: production_defs)

lemma sum_of_product:
  "parse_expression [Ident ''a'', Punct ''+'', Ident ''b'', Punct ''*'', Ident ''c''] =
     Some (Node ''binary_expression'' [
         (''left'', identifier_node ''a''),
         (''operator'', Anon ''+''),
         (''right'', Node ''binary_expression'' [
            (''left'', identifier_node ''b''),
            (''operator'', Anon ''*''),
            (''right'', identifier_node ''c'')])])"
  by (simp add: parse_defs)

lemma product_in_sum:
  "parse_expression [Ident ''a'', Punct ''*'', Ident ''b'', Punct ''+'', Ident ''c''] =
     Some (Node ''binary_expression'' [
         (''left'', Node ''binary_expression'' [
            (''left'', identifier_node ''a''),
            (''operator'', Anon ''*''),
            (''right'', identifier_node ''b'')]),
         (''operator'', Anon ''+''),
         (''right'', identifier_node ''c'')])"
  by (simp add: parse_defs)

lemma try_under_unary:
  "parse_expression [Punct ''-'', Ident ''a'', Punct ''?''] =
     Some (Node ''unary_expression'' [
         ('''', Anon ''-''),
         ('''', Node ''try_expression'' [
            ('''', identifier_node ''a''),
            ('''', Anon ''?'')])])"
  by (simp add: parse_defs)

lemma field_under_unary:
  "parse_expression [Punct ''-'', Ident ''a'', Punct ''.'', Ident ''b''] =
     Some (Node ''unary_expression'' [
         ('''', Anon ''-''),
         ('''', Node ''field_expression'' [
            (''value'', identifier_node ''a''),
            ('''', Anon ''.''),
            (''field'', Node ''field_name'' [('''', Leaf ''identifier'' ''b'')])])])"
  by (simp add: parse_defs)

lemma call_under_unary:
  "parse_expression [Punct ''-'', Ident ''f'', Punct ''('', Punct '')''] =
     Some (Node ''unary_expression'' [
         ('''', Anon ''-''),
         ('''', Node ''call_expression'' [
            (''function'', identifier_node ''f''),
            (''arguments'', Node ''arguments'' [('''', Anon ''(''), ('''', Anon '')'')])])])"
  by (simp add: parse_defs)

lemma unary_under_cast:
  "parse_expression [Punct ''-'', Ident ''a'', Punct ''as'', Ident ''T''] =
     Some (Node ''type_cast_expression'' [
         (''value'', Node ''unary_expression'' [
            ('''', Anon ''-''),
            ('''', identifier_node ''a'')]),
         ('''', Anon ''as''),
         (''type'', Node ''type_name'' [('''', Leaf ''identifier'' ''T'')])])"
  by (simp add: parse_defs)

lemma unary_under_product:
  "parse_expression [Punct ''-'', Ident ''a'', Punct ''*'', Ident ''b''] =
     Some (Node ''binary_expression'' [
         (''left'', Node ''unary_expression'' [
            ('''', Anon ''-''),
            ('''', identifier_node ''a'')]),
         (''operator'', Anon ''*''),
         (''right'', identifier_node ''b'')])"
  by (simp add: parse_defs)

lemma cast_under_product:
  "parse_expression [Ident ''a'', Punct ''as'', Ident ''T'', Punct ''*'', Ident ''b''] =
     Some (Node ''binary_expression'' [
         (''left'', Node ''type_cast_expression'' [
            (''value'', identifier_node ''a''),
            ('''', Anon ''as''),
            (''type'', Node ''type_name'' [('''', Leaf ''identifier'' ''T'')])]),
         (''operator'', Anon ''*''),
         (''right'', identifier_node ''b'')])"
  by (simp add: parse_defs)

lemma cast_in_product:
  "parse_expression [Ident ''a'', Punct ''*'', Ident ''b'', Punct ''as'', Ident ''T''] =
     Some (Node ''binary_expression'' [
         (''left'', identifier_node ''a''),
         (''operator'', Anon ''*''),
         (''right'', Node ''type_cast_expression'' [
            (''value'', identifier_node ''b''),
            ('''', Anon ''as''),
            (''type'', Node ''type_name'' [('''', Leaf ''identifier'' ''T'')])])])"
  by (simp add: parse_defs)

lemma try_in_sum:
  "parse_expression [Ident ''a'', Punct ''+'', Ident ''b'', Punct ''?''] =
     Some (Node ''binary_expression'' [
         (''left'', identifier_node ''a''),
         (''operator'', Anon ''+''),
         (''right'', Node ''try_expression'' [
            ('''', identifier_node ''b''),
            ('''', Anon ''?'')])])"
  by (simp add: parse_defs)

lemma assignment_in_closure:
  "parse_expression [Punct ''|'', Ident ''x'', Punct ''|'', Ident ''a'', Punct ''='', Ident ''b''] =
     Some (Node ''closure_expression'' [
         (''parameters'', Node ''closure_parameters'' [('''', Anon ''|''), ('''', identifier_node ''x''), ('''', Anon ''|'')]),
         (''body'', Node ''assignment_expression'' [
            (''left'', identifier_node ''a''),
            ('''', Anon ''=''),
            (''right'', identifier_node ''b'')])])"
  by (simp add: parse_defs)

lemma assignment_chain:
  "parse_expression [Ident ''a'', Punct ''='', Ident ''b'', Punct ''='', Ident ''c''] =
     Some (Node ''assignment_expression'' [
         (''left'', Node ''assignment_expression'' [
            (''left'', identifier_node ''a''),
            ('''', Anon ''=''),
            (''right'', identifier_node ''b'')]),
         ('''', Anon ''=''),
         (''right'', identifier_node ''c'')])"
  by (simp add: parse_defs)

lemma compound_assignment_chain:
  "parse_expression [Ident ''a'', Punct ''+='', Ident ''b'', Punct ''+='', Ident ''c''] =
     Some (Node ''compound_assignment_expr'' [
         (''left'', Node ''compound_assignment_expr'' [
            (''left'', identifier_node ''a''),
            (''operator'', Anon ''+=''),
            (''right'', identifier_node ''b'')]),
         (''operator'', Anon ''+=''),
         (''right'', identifier_node ''c'')])"
  by (simp add: parse_defs)

text \<open>The tree that the operator parser builds for \<open>a = b = c\<close> conforms to the grammar.\<close>

lemma assignment_chain_conforms:
  "conforms (Node ''assignment_expression'' [
       (''left'', Node ''assignment_expression'' [
          (''left'', identifier_node ''a''),
          ('''', Anon ''=''),
          (''right'', identifier_node ''b'')]),
       ('''', Anon ''=''),
       (''right'', identifier_node ''c'')])"
  by (simp add: identifier_node_def admits_def node_rx_def rule_of_simps depth_def
      assignment_expression_def expression_defs name_def identifier_token_def optional_def
      re_match_def)

text \<open>
  C1. The claim: \<open>a = b = c\<close> and \<open>a += b += c\<close> group to the right, the right-hand side
  of the outer assignment being an assignment. The rules \<open>assignment_expression\<close> and
  \<open>compound_assignment_expr\<close> are declared with \<open>prec.left\<close>, so the chain groups to the
  left: the outer node's left-hand side is the inner assignment and its right-hand side
  is the name \<open>c\<close>. The tree of \<open>a = b = c\<close> conforms to the grammar.
\<close>

theorem assignment_chain_groups_left:
  "parse_expression [Ident ''a'', Punct ''='', Ident ''b'', Punct ''='', Ident ''c''] =
     Some (Node ''assignment_expression'' [
       (''left'', Node ''assignment_expression'' [
          (''left'', identifier_node ''a''),
          ('''', Anon ''=''),
          (''right'', identifier_node ''b'')]),
       ('''', Anon ''=''),
       (''right'', identifier_node ''c'')])
   \<and> parse_expression [Ident ''a'', Punct ''+='', Ident ''b'', Punct ''+='', Ident ''c''] =
     Some (Node ''compound_assignment_expr'' [
       (''left'', Node ''compound_assignment_expr'' [
          (''left'', identifier_node ''a''),
          (''operator'', Anon ''+=''),
          (''right'', identifier_node ''b'')]),
       (''operator'', Anon ''+=''),
       (''right'', identifier_node ''c'')])
   \<and> map_option (\<lambda>t. (map_option kind_of (child_by_field t ''left''),
                       map_option kind_of (child_by_field t ''right'')))
       (parse_expression [Ident ''a'', Punct ''='', Ident ''b'', Punct ''='', Ident ''c'']) =
     Some (Some (Some ''assignment_expression''), Some (Some ''name''))
   \<and> map (\<lambda>s. map_option p_assoc (find_production Infix s)) [''='', ''+=''] =
       [Some LeftAssoc, Some LeftAssoc]
   \<and> map_option conforms
       (parse_expression [Ident ''a'', Punct ''='', Ident ''b'', Punct ''='', Ident ''c'']) = Some True"
  by (intro conjI)
     (simp_all add: assignment_chain compound_assignment_chain production_lookups
       assignment_chain_conforms child_by_field_def kind_of_identifier_node
       shown_identifier_node del: conforms.simps)

text \<open>
  C2. The precedence levels from highest to lowest are call and index, field access,
  \<open>?\<close>, unary prefix, \<open>as\<close>, multiplicative, additive, shift, bitwise and, bitwise xor,
  bitwise or, comparison, logical and, logical or, range, assignment, closure body: the
  table lists exactly these levels with strictly falling numbers, and the rules and the
  binary operators carry them. The levels decide the tree. Of any two infix operators
  (binary, range, assignment) in \<open>a s b t c\<close>, the one of the higher level takes \<open>b\<close>,
  whichever comes first, and at one level the left one does: in \<open>a + b * c\<close> the product
  is the right operand of the sum, in \<open>a * b + c\<close> the left one. A unary prefix
  operator takes its operand before any infix operator after it does, and \<open>?\<close> takes
  the operand before it from any infix operator. Above the infix levels: \<open>-a?\<close>,
  \<open>-a.b\<close> and \<open>-f()\<close> negate the try, the field access and the call; \<open>-a as T\<close> casts
  the negation and \<open>-a * b\<close> multiplies it; \<open>a as T * b\<close> and \<open>a * b as T\<close> multiply
  with the cast; \<open>a + b?\<close> adds the try. Below them: the body of the closure
  \<open>|x| a = b\<close> is the assignment. (Calls, field access and \<open>?\<close> all follow their
  operand, so that their order among themselves decides no tree.)
\<close>

theorem precedence_levels:
  "set prec_order = UNIV
   \<and> sorted_wrt (\<lambda>a b. PREC b < PREC a) prec_order
   \<and> map rule_prec [call_expression, index_expression, field_expression, await_expression,
        try_expression, unary_expression, reference_expression, type_cast_expression,
        range_expression, assignment_expression, compound_assignment_expr, closure_expression]
      = map (\<lambda>l. Some (PREC l)) [prec_call, prec_call, prec_field, prec_field,
        prec_try, prec_unary, prec_unary, prec_cast,
        prec_range, prec_assign, prec_assign, prec_closure]
   \<and> map (\<lambda>p. (p_operator p, p_prec p))
        (filter (\<lambda>p. p_kind p = ''binary_expression'') operator_productions)
      = map (\<lambda>(s, l). (s, PREC l))
        [(''&&'', prec_and), (''||'', prec_or), (''&'', prec_bitand), (''|'', prec_bitor),
         (''^'', prec_bitxor), (''=='', prec_comparative), (''!='', prec_comparative),
         (''<'', prec_comparative), (''<='', prec_comparative), (''>'', prec_comparative),
         (''>='', prec_comparative), (''<<'', prec_shift), (''>>'', prec_shift),
         (''+'', prec_additive), (''-'', prec_additive), (''*'', prec_multiplicative),
         (''/'', prec_multiplicative), (''%'', prec_multiplicative)]
   \<and> map (\<lambda>s. map_option (\<lambda>p. (p_kind p, p_prec p)) (find_production Infix s))
        [''..'', ''...'', ''..='', ''='', ''+='']
      = [Some (''range_expression'', PREC prec_range), Some (''range_expression'', PREC prec_range),
         Some (''range_expression'', PREC prec_range),
         Some (''assignment_expression'', PREC prec_assign),
         Some (''compound_assignment_expr'', PREC prec_assign)]
   \<and> (find_production Infix s = Some p \<and> find_production Infix t = Some q \<longrightarrow>
        parse_expression [Ident ''a'', Punct s, Ident ''b'', Punct t, Ident ''c''] =
          Some (if p_prec p < p_prec q
                then build p [identifier_node ''a'', Anon s,
                       build q [identifier_node ''b'', Anon t, identifier_node ''c'']]
                else build q [build p [identifier_node ''a'', Anon s, identifier_node ''b''],
                       Anon t, identifier_node ''c'']))
   \<and> (find_production Prefix u = Some r \<and> find_production Infix t' = Some q' \<longrightarrow>
        parse_expression [Punct u, Ident ''a'', Punct t', Ident ''b''] =
          Some (build q' [build r [Anon u, identifier_node ''a''], Anon t',
                  identifier_node ''b'']))
   \<and> (find_production Infix s' = Some p' \<longrightarrow>
        parse_expression [Ident ''a'', Punct s', Ident ''b'', Punct ''?''] =
          Some (build p' [identifier_node ''a'', Anon s',
                  Node ''try_expression'' [('''', identifier_node ''b''), ('''', Anon ''?'')]]))
   \<and> parse_expression [Ident ''a'', Punct ''+'', Ident ''b'', Punct ''*'', Ident ''c''] =
        Some (Node ''binary_expression'' [
         (''left'', identifier_node ''a''),
         (''operator'', Anon ''+''),
         (''right'', Node ''binary_expression'' [
            (''left'', identifier_node ''b''),
            (''operator'', Anon ''*''),
            (''right'', identifier_node ''c'')])])
   \<and> parse_expression [Ident ''a'', Punct ''*'', Ident ''b'', Punct ''+'', Ident ''c''] =
        Some (Node ''binary_expression'' [
         (''left'', Node ''binary_expression'' [
            (''left'', identifier_node ''a''),
            (''operator'', Anon ''*''),
            (''right'', identifier_node ''b'')]),
         (''operator'', Anon ''+''),
         (''right'', identifier_node ''c'')])
   \<and> parse_expression [Punct ''-'', Ident ''a'', Punct ''?''] =
        Some (Node ''unary_expression'' [
         ('''', Anon ''-''),
         ('''', Node ''try_expression'' [
            ('''', identifier_node ''a''),
            ('''', Anon ''?'')])])
   \<and> parse_expression [Punct ''-'', Ident ''a'', Punct ''.'', Ident ''b''] =
        Some (Node ''unary_expression'' [
         ('''', Anon ''-''),
         ('''', Node ''field_expression'' [
            (''value'', identifier_node ''a''),
            ('''', Anon ''.''),
            (''field'', Node ''field_name'' [('''', Leaf ''identifier'' ''b'')])])])
   \<and> parse_expression [Punct ''-'', Ident ''f'', Punct ''('', Punct '')''] =
        Some (Node ''unary_expression'' [
         ('''', Anon ''-''),
         ('''', Node ''call_expression'' [
            (''function'', identifier_node ''f''),
            (''arguments'', Node ''arguments'' [('''', Anon ''(''), ('''', Anon '')'')])])])
   \<and> parse_expression [Punct ''-'', Ident ''a'', Punct ''as'', Ident ''T''] =
        Some (Node ''type_cast_expression'' [
         (''value'', Node ''unary_expression'' [
            ('''', Anon ''-''),
            ('''', identifier_node ''a'')]),
         ('''', Anon ''as''),
         (''type'', Node ''type_name'' [('''', Leaf ''identifier'' ''T'')])])
   \<and> parse_expression [Punct ''-'', Ident ''a'', Punct ''*'', Ident ''b''] =
        Some (Node ''binary_expression'' [
         (''left'', Node ''unary_expression'' [
            ('''', Anon ''-''),
            ('''', identifier_node ''a'')]),
         (''operator'', Anon ''*''),
         (''right'', identifier_node ''b'')])
   \<and> parse_expression [Ident ''a'', Punct ''as'', Ident ''T'', Punct ''*'', Ident ''b''] =
        Some (Node ''binary_expression'' [
         (''left'', Node ''type_cast_expression'' [
            (''value'', identifier_node ''a''),
            ('''', Anon ''as''),
            (''type'', Node ''type_name'' [('''', Leaf ''identifier'' ''T'')])]),
         (''operator'', Anon ''*''),
         (''right'', identifier_node ''b'')])
   \<and> parse_expression [Ident ''a'', Punct ''*'', Ident ''b'', Punct ''as'', Ident ''T''] =
        Some (Node ''binary_expression'' [
         (''left'', identifier_node ''a''),
         (''operator'', Anon ''*''),
         (''right'', Node ''type_cast_expression'' [
            (''value'', identifier_node ''b''),
            ('''', Anon ''as''),
            (''type'', Node ''type_name'' [('''', Leaf ''identifier'' ''T'')])])])
   \<and> parse_expression [Ident ''a'', Punct ''+'', Ident ''b'', Punct ''?''] =
        Some (Node ''binary_expression'' [
         (''left'', identifier_node ''a''),
         (''operator'', Anon ''+''),
         (''right'', Node ''try_expression'' [
            ('''', identifier_node ''b''),
            ('''', Anon ''?'')])])
   \<and> parse_expression [Punct ''|'', Ident ''x'', Punct ''|'', Ident ''a'', Punct ''='', Ident ''b''] =
        Some (Node ''closure_expression'' [
         (''parameters'', Node ''closure_parameters'' [('''', Anon ''|''), ('''', identifier_node ''x''), ('''', Anon ''|'')]),
         (''body'', Node ''assignment_expression'' [
            (''left'', identifier_node ''a''),
            ('''', Anon ''=''),
            (''right'', identifier_node ''b'')])])"
  using prec_order_complete prec_order_descends rule_levels binary_levels range_assign_levels
    two_infix_operators [of s p t q] prefix_then_infix [of u r t' q'] infix_then_try [of s' p']
    sum_of_product product_in_sum try_under_unary field_under_unary call_under_unary unary_under_cast unary_under_product cast_under_product cast_in_product try_in_sum assignment_in_closure
  by simp

theorem precedence_levels_witness:
  "find_production Infix ''*'' = Some \<lparr>p_shape = Infix, p_kind = ''binary_expression'',
     p_labels = [''left'', ''operator'', ''right''], p_operator = ''*'', p_prec = 10,
     p_assoc = LeftAssoc\<rparr>
   \<and> find_production Infix ''+'' = Some \<lparr>p_shape = Infix, p_kind = ''binary_expression'',
     p_labels = [''left'', ''operator'', ''right''], p_operator = ''+'', p_prec = 9,
     p_assoc = LeftAssoc\<rparr>
   \<and> parse_expression [Ident ''a'', Punct ''*'', Ident ''b'', Punct ''+'', Ident ''c''] =
        Some (Node ''binary_expression'' [
         (''left'', Node ''binary_expression'' [
            (''left'', identifier_node ''a''),
            (''operator'', Anon ''*''),
            (''right'', identifier_node ''b'')]),
         (''operator'', Anon ''+''),
         (''right'', identifier_node ''c'')])
   \<and> find_production Prefix ''-'' = Some \<lparr>p_shape = Prefix, p_kind = ''unary_expression'',
     p_labels = ['''', ''''], p_operator = ''-'', p_prec = 12, p_assoc = NoAssoc\<rparr>
   \<and> parse_expression [Punct ''-'', Ident ''a'', Punct ''*'', Ident ''b''] =
        Some (Node ''binary_expression'' [
         (''left'', Node ''unary_expression'' [
            ('''', Anon ''-''),
            ('''', identifier_node ''a'')]),
         (''operator'', Anon ''*''),
         (''right'', identifier_node ''b'')])
   \<and> parse_expression [Ident ''a'', Punct ''+'', Ident ''b'', Punct ''?''] =
        Some (Node ''binary_expression'' [
         (''left'', identifier_node ''a''),
         (''operator'', Anon ''+''),
         (''right'', Node ''try_expression'' [
            ('''', identifier_node ''b''),
            ('''', Anon ''?'')])])"
  using precedence_levels [of "''*''"
      "\<lparr>p_shape = Infix, p_kind = ''binary_expression'',
        p_labels = [''left'', ''operator'', ''right''], p_operator = ''*'', p_prec = 10,
        p_assoc = LeftAssoc\<rparr>"
      "''+''"
      "\<lparr>p_shape = Infix, p_kind = ''binary_expression'',
        p_labels = [''left'', ''operator'', ''right''], p_operator = ''+'', p_prec = 9,
        p_assoc = LeftAssoc\<rparr>"
      "''-''"
      "\<lparr>p_shape = Prefix, p_kind = ''unary_expression'',
        p_labels = ['''', ''''], p_operator = ''-'', p_prec = 12, p_assoc = NoAssoc\<rparr>"
      "''*''"
      "\<lparr>p_shape = Infix, p_kind = ''binary_expression'',
        p_labels = [''left'', ''operator'', ''right''], p_operator = ''*'', p_prec = 10,
        p_assoc = LeftAssoc\<rparr>"
      "''+''"
      "\<lparr>p_shape = Infix, p_kind = ''binary_expression'',
        p_labels = [''left'', ''operator'', ''right''], p_operator = ''+'', p_prec = 9,
        p_assoc = LeftAssoc\<rparr>"]
  by (simp add: production_lookups build_def)

section \<open>Line comments\<close>

lemma comment_tokens:
  "first_tokens rule_of depth [] after_slashes =
     [([], 2, lit ''//''), (''outer'', 2, lit ''/''), (''inner'', 2, lit ''!''),
      ([], 1, Star (Atom Dot))]"
  by (simp add: after_slashes_def line_comment_def rule_of_simps depth_def
      u_line_doc_comment_marker_def u_inner_line_doc_comment_marker_def
      u_outer_line_doc_comment_marker_def token_atom_def aux_atom_def)

text \<open>
  C8. After the two slashes of a line comment, two further slashes (four or more in all)
  make a plain comment; otherwise one further slash (three in all, not four) makes an
  outer doc comment and an exclamation mark an inner doc comment; anything else is a
  plain comment. \<open>rest\<close> is the text that follows the two slashes.
\<close>

theorem line_comment_classes:
  "classify_line_comment rest =
     Some (if take 2 rest = ''//'' then Plain
           else if take 1 rest = ''/'' then Outer_doc
           else if take 1 rest = ''!'' then Inner_doc
           else Plain)"
proof -
  obtain n where n: "re_longest (Star (Atom Dot)) rest = Some n"
    using longest_nullable [of "Star (Atom Dot)" cclass_has rest]
    by (auto simp: re_longest_def)
  show ?thesis
    unfolding classify_line_comment_def comment_tokens
    by (simp add: re_longest_lit n numeral_2_eq_2)
qed

section \<open>Symbols in unlabelled positions\<close>

lemma sym_rx_visible: "\<not> hidden s \<Longrightarrow> sym_rx s = Atom ([], E_node s)"
  by (simp add: sym_rx_def)

lemma compile_Sym: "compile rule_of depth [] (Sym s) = sym_rx s"
  by (simp add: sym_rx_def)

lemma is_a_fold: "accepts atom_sat (sym_rx s) [c] = is_a s c"
  by (simp add: is_a_def)

section \<open>The source file: shebang and statements\<close>

lemma statement_rx:
  "sym_rx ''_statement'' = alts [
     Atom ([], E_node ''expression_statement''),
     alts (map (\<lambda>k. Atom ([], E_node k)) [''const_item'', ''macro_invocation'',
       ''macro_definition'', ''empty_statement'', ''attribute_item'', ''inner_attribute_item'',
       ''mod_item'', ''foreign_mod_item'', ''struct_item'', ''union_item'', ''enum_item'',
       ''type_item'', ''function_item'', ''function_signature_item'', ''impl_item'',
       ''trait_item'', ''associated_type'', ''let_declaration'', ''use_declaration'',
       ''extern_crate_declaration'', ''static_item''])]"
  by (simp add: sym_rx_def depth_def rule_of_simps u_statement_def u_declaration_statement_def)

lemma statement_single: "single (sym_rx ''_statement'')"
  by (simp add: statement_rx)

lemma source_file_rx:
  "node_rx ''source_file'' =
     Some (Cat (Alt (Atom ([], E_node ''shebang'')) (Alt Eps Never))
            (Cat (Star (sym_rx ''_statement'')) Eps))"
proof -
  have "resolved rule_of depth source_file"
    by (simp add: source_file_def optional_def depth_def rule_of_simps u_statement_def
        u_declaration_statement_def)
  moreover have "compile rule_of depth [] source_file =
      Cat (Alt (Atom ([], E_node ''shebang'')) (Alt Eps Never))
        (Cat (Star (sym_rx ''_statement'')) Eps)"
    by (simp add: source_file_def optional_def compile_Sym del: compile.simps(4))
       (simp add: sym_rx_def [symmetric] sym_rx_visible)
  ultimately show ?thesis
    by (simp add: node_rx_def rule_of_simps) (simp add: source_file_def)
qed

lemma source_file_children:
  "admits ''source_file'' cs =
     (\<exists>pre rest. cs = pre @ rest
        \<and> (pre = [] \<or> (\<exists>t. pre = [([], t)] \<and> kind_of t = Some ''shebang''))
        \<and> list_all (is_a ''_statement'') rest)"
  unfolding admits_def source_file_rx
  by (auto simp: accepts_Cat accepts_Star_single statement_single is_a_def [abs_def])

lemma statement_kinds:
  "is_a ''_statement'' c =
     (fst c = [] \<and> kind_of (snd c) \<in> Some ` set [''expression_statement'', ''const_item'',
       ''macro_invocation'', ''macro_definition'', ''empty_statement'', ''attribute_item'',
       ''inner_attribute_item'', ''mod_item'', ''foreign_mod_item'', ''struct_item'',
       ''union_item'', ''enum_item'', ''type_item'', ''function_item'',
       ''function_signature_item'', ''impl_item'', ''trait_item'', ''associated_type'',
       ''let_declaration'', ''use_declaration'', ''extern_crate_declaration'',
       ''static_item''])"
  by (cases c) (auto simp: is_a_def statement_rx)

lemma statement_not_shebang: "is_a ''_statement'' c \<Longrightarrow> kind_of (snd c) \<noteq> Some ''shebang''"
  by (auto simp: statement_kinds)

lemma shebang_in_tail:
  "admits ''source_file'' cs \<Longrightarrow> list_all (\<lambda>c. kind_of (snd c) \<noteq> Some ''shebang'') (tl cs)"
proof -
  assume "admits ''source_file'' cs"
  then obtain pre rest where h: "cs = pre @ rest"
    "pre = [] \<or> (\<exists>t. pre = [([], t)] \<and> kind_of t = Some ''shebang'')"
    "list_all (is_a ''_statement'') rest"
    unfolding source_file_children by blast
  have rest: "list_all (\<lambda>c. kind_of (snd c) \<noteq> Some ''shebang'') rest"
    using h(3) by (auto simp: list_all_iff dest: statement_not_shebang)
  then have "list_all (\<lambda>c. kind_of (snd c) \<noteq> Some ''shebang'') (tl rest)"
    by (cases rest) auto
  then show ?thesis using h(1,2) rest by auto
qed

lemma shebang_conforms:
  "conforms (Leaf ''shebang'' s) =
     (\<exists>ws d body. s = CHR ''#'' # CHR ''!'' # ws @ d # body
        \<and> list_all (cclass_has (Cls [Ws])) ws \<and> d \<noteq> CHR ''[''
        \<and> body \<noteq> [] \<and> list_all (\<lambda>c. c \<noteq> CHR 0x0A) body)"
proof -
  have dots: "accepts cclass_has (Plus (Atom Dot)) body =
      (body \<noteq> [] \<and> list_all (\<lambda>c. c \<noteq> CHR 0x0A) body)" for body
    by (cases body) (simp_all add: Plus_def accepts_Atom_Cat accepts_Star_Atom list_all_iff)
  have "conforms (Leaf ''shebang'' s) =
      (\<exists>x ys. s = x # ys \<and> x = CHR ''#'' \<and>
        (\<exists>x' ys'. ys = x' # ys' \<and> x' = CHR ''!'' \<and>
          (\<exists>ws zs. ys' = ws @ zs \<and> list_all (cclass_has (Cls [Ws])) ws \<and>
            (\<exists>d body. zs = d # body \<and> d \<noteq> CHR ''['' \<and>
               body \<noteq> [] \<and> list_all (\<lambda>c. c \<noteq> CHR 0x0A) body))))"
    by (simp add: rule_of_simps shebang_def re_match_def accepts_Atom_Cat
        accepts_Star_Atom_Cat dots del: accepts.simps)
  also have "\<dots> = (\<exists>ws d body. s = CHR ''#'' # CHR ''!'' # ws @ d # body
        \<and> list_all (cclass_has (Cls [Ws])) ws \<and> d \<noteq> CHR ''[''
        \<and> body \<noteq> [] \<and> list_all (\<lambda>c. c \<noteq> CHR 0x0A) body)"
    (is "?A = ?B")
  proof
    assume ?A
    then obtain ws d body where "s = CHR ''#'' # CHR ''!'' # ws @ d # body"
      "list_all (cclass_has (Cls [Ws])) ws" "d \<noteq> CHR ''[''" "body \<noteq> []"
      "list_all (\<lambda>c. c \<noteq> CHR 0x0A) body"
      by auto
    then show ?B by (intro exI [of _ ws] exI [of _ d] exI [of _ body]) simp
  next
    assume ?B
    then obtain ws d body where h: "s = CHR ''#'' # CHR ''!'' # ws @ d # body"
      "list_all (cclass_has (Cls [Ws])) ws" "d \<noteq> CHR ''[''" "body \<noteq> []"
      "list_all (\<lambda>c. c \<noteq> CHR 0x0A) body"
      by (elim exE conjE)
    have "\<exists>ws' zs. ws @ d # body = ws' @ zs \<and> list_all (cclass_has (Cls [Ws])) ws' \<and>
            (\<exists>d' body'. zs = d' # body' \<and> d' \<noteq> CHR ''['' \<and>
               body' \<noteq> [] \<and> list_all (\<lambda>c. c \<noteq> CHR 0x0A) body')"
      using h(2-5) by (intro exI [of _ ws] exI [of _ "d # body"]) simp
    then show ?A unfolding h(1) by simp
  qed
  finally show ?thesis .
qed

lemma shebang_start:
  "conforms (Leaf ''shebang'' s) \<Longrightarrow>
     \<exists>c rest. s = CHR ''#'' # CHR ''!'' # c # rest \<and> c \<noteq> CHR ''['' \<and> rest \<noteq> []"
proof -
  assume "conforms (Leaf ''shebang'' s)"
  then obtain ws d body where h: "s = CHR ''#'' # CHR ''!'' # ws @ d # body"
    "list_all (cclass_has (Cls [Ws])) ws" "d \<noteq> CHR ''[''" "body \<noteq> []"
    unfolding shebang_conforms by blast
  show ?thesis
  proof (cases ws)
    case Nil
    then show ?thesis using h by simp
  next
    case (Cons w ws')
    then have "w \<noteq> CHR ''[''" using h(2) by auto
    then show ?thesis using h(1) Cons by simp
  qed
qed

lemma attribute_not_shebang: "\<not> conforms (Leaf ''shebang'' (''#!['' @ s))"
  using shebang_start [of "''#!['' @ s"] by auto

lemma attribute_rx:
  "sym_rx ''_attribute'' = alts (map (\<lambda>k. Atom ([], E_node k))
     [''unsafe_attribute'', ''builtin_attribute'', ''attribute_macro''])"
  by (simp add: sym_rx_def depth_def rule_of_simps u_attribute_def)

lemma inner_attribute_rx:
  "node_rx ''inner_attribute_item'' =
     Some (cats [Atom ([], E_str ''#''), Atom ([], E_str ''!''), Atom ([], E_str ''[''),
       sym_rx ''_attribute'', Atom ([], E_str '']'')])"
proof -
  have "resolved rule_of depth inner_attribute_item"
    by (simp add: inner_attribute_item_def depth_def rule_of_simps u_attribute_def)
  moreover have "compile rule_of depth [] inner_attribute_item =
      cats [Atom ([], E_str ''#''), Atom ([], E_str ''!''), Atom ([], E_str ''[''),
       sym_rx ''_attribute'', Atom ([], E_str '']'')]"
    by (simp add: inner_attribute_item_def compile_Sym del: compile.simps(4))
  ultimately show ?thesis
    by (simp add: node_rx_def rule_of_simps) (simp add: inner_attribute_item_def)
qed

lemma attribute_single: "single (sym_rx ''_attribute'')"
  by (simp add: attribute_rx)

lemma inner_attribute_children:
  "admits ''inner_attribute_item'' cs =
     (\<exists>a. cs = [([], Anon ''#''), ([], Anon ''!''), ([], Anon ''[''), a, ([], Anon '']'')]
        \<and> is_a ''_attribute'' a)"
  unfolding admits_def inner_attribute_rx
  by (auto simp: accepts_Atom_Cat accepts_single_Cat [OF attribute_single] is_a_fold
      simp del: accepts.simps)

lemma shebang_example: "conforms (Leaf ''shebang'' ''#!/bin/sh'')"
  by (simp add: rule_of_simps shebang_def re_match_def Plus_def)

lemma let_example:
  "conforms (Node ''source_file'' [([], Node ''let_declaration''
      [([], Anon ''let''), (''pattern'', identifier_node ''x''), ([], Anon '';'')])])"
  by (simp add: admits_def node_rx_def rule_of_simps depth_def identifier_node_def
    source_file_def u_statement_def u_declaration_statement_def let_declaration_def
    u_pattern_def u_literal_pattern_def u_reserved_keyword_def u_type_def u_type_name_def
    u_expression_def u_expression_except_range_def u_literal_def
    u_expression_ending_with_block_def name_def identifier_token_def optional_def re_match_def)

text \<open>
  C3. The claim: a let declaration is never a direct child of the root. The tree of the
  input \<open>let x;\<close> whose root has the let declaration as its only child conforms to the
  grammar: \<open>source_file\<close> repeats \<open>_statement\<close>, the statement of blocks, which has
  \<open>let_declaration\<close> among its declaration statements.
\<close>

theorem let_at_top_level:
  "conforms (Node ''source_file'' [([], Node ''let_declaration''
      [([], Anon ''let''), (''pattern'', identifier_node ''x''), ([], Anon '';'')])])
   \<and> yield (Node ''source_file'' [([], Node ''let_declaration''
      [([], Anon ''let''), (''pattern'', identifier_node ''x''), ([], Anon '';'')])])
     = [''let'', ''x'', '';'']"
  using let_example by (simp add: identifier_node_def)

text \<open>
  C3, as the grammar has it: the children of the root are an optional shebang followed by
  any number of statements, and a let declaration is a statement, so it can be a direct
  child of the root.
\<close>

theorem statements_at_top_level:
  "admits ''source_file'' cs =
     (\<exists>pre rest. cs = pre @ rest
        \<and> (pre = [] \<or> (\<exists>t. pre = [([], t)] \<and> kind_of t = Some ''shebang''))
        \<and> list_all (is_a ''_statement'') rest)
   \<and> is_a ''_statement'' ([], Node ''let_declaration'' ks)
   \<and> admits ''source_file'' [([], Node ''let_declaration'' ks)]"
proof -
  have a: "is_a ''_statement'' ([], Node ''let_declaration'' ks)"
    by (simp add: statement_kinds)
  have "admits ''source_file'' ([] @ [([], Node ''let_declaration'' ks)])"
    unfolding source_file_children using a
    by (intro exI [of _ "[]"] exI [of _ "[([], Node ''let_declaration'' ks)]"]) simp
  then show ?thesis using a source_file_children [of cs] by simp
qed

text \<open>
  C9. A shebang stands only in first position among the children of the root, so there is
  at most one; its text starts with \<open>#!\<close>, the next character is not \<open>[\<close>, and at
  least one more character follows. No text that starts with \<open>#![\<close> is a shebang; the
  tokens \<open>#\<close>, \<open>!\<close>, \<open>[\<close>, an attribute and \<open>]\<close> are the children of an inner
  attribute item, which is a statement.
\<close>

theorem shebang_first_only:
  "(admits ''source_file'' cs \<longrightarrow>
      list_all (\<lambda>c. kind_of (snd c) \<noteq> Some ''shebang'') (tl cs))
   \<and> (conforms (Leaf ''shebang'' s) \<longrightarrow>
      (\<exists>c rest. s = CHR ''#'' # CHR ''!'' # c # rest \<and> c \<noteq> CHR ''['' \<and> rest \<noteq> []))
   \<and> \<not> conforms (Leaf ''shebang'' (''#!['' @ s'))
   \<and> admits ''inner_attribute_item'' as =
      (\<exists>a. as = [([], Anon ''#''), ([], Anon ''!''), ([], Anon ''[''), a, ([], Anon '']'')]
         \<and> is_a ''_attribute'' a)
   \<and> is_a ''_statement'' ([], Node ''inner_attribute_item'' as)"
  using shebang_in_tail [of cs] shebang_start [of s] attribute_not_shebang [of s']
    inner_attribute_children [of as]
  by (simp add: statement_kinds)

theorem shebang_first_only_witness:
  "admits ''source_file'' [([], Leaf ''shebang'' ''#!/bin/sh''), ([], Leaf ''empty_statement'' '';'')]
   \<and> list_all (\<lambda>c. kind_of (snd c) \<noteq> Some ''shebang'')
        (tl [([], Leaf ''shebang'' ''#!/bin/sh''), ([], Leaf ''empty_statement'' '';'')])
   \<and> conforms (Leaf ''shebang'' ''#!/bin/sh'')
   \<and> (\<exists>c rest. ''#!/bin/sh'' = CHR ''#'' # CHR ''!'' # c # rest \<and> c \<noteq> CHR ''['' \<and> rest \<noteq> [])"
proof -
  have "admits ''source_file''
      ([([], Leaf ''shebang'' ''#!/bin/sh'')] @ [([], Leaf ''empty_statement'' '';'')])"
    unfolding source_file_children
    by (intro exI [of _ "[([], Leaf ''shebang'' ''#!/bin/sh'')]"]
          exI [of _ "[([], Leaf ''empty_statement'' '';'')]"])
       (simp add: statement_kinds)
  then have a: "admits ''source_file''
      [([], Leaf ''shebang'' ''#!/bin/sh''), ([], Leaf ''empty_statement'' '';'')]"
    by simp
  show ?thesis
    using a shebang_example
      shebang_first_only [of "[([], Leaf ''shebang'' ''#!/bin/sh''), ([], Leaf ''empty_statement'' '';'')]"
        "''#!/bin/sh''"]
    by simp
qed

section \<open>Parenthesized, tuple and unit expressions\<close>

lemma expression_rx:
  "sym_rx ''_expression'' = alts [
     alts ([Atom ([], E_node k). k \<leftarrow> [''unary_expression'', ''reference_expression'',
         ''try_expression'', ''binary_expression'', ''assignment_expression'',
         ''compound_assignment_expr'', ''type_cast_expression'', ''call_expression'',
         ''return_expression'', ''yield_expression'']]
       @ [alts [Atom ([], E_node k). k \<leftarrow> [''string_literal'', ''raw_string_literal'',
           ''char_literal'', ''boolean_literal'', ''integer_literal'', ''float_literal'']]]
       @ [Atom ([], E_node k). k \<leftarrow> [''name'', ''name'', ''self'', ''scoped_name'',
           ''generic_function'', ''await_expression'', ''field_expression'',
           ''array_expression'', ''tuple_expression'', ''macro_invocation'',
           ''unit_expression'', ''break_expression'', ''continue_expression'',
           ''index_expression'', ''metavariable'', ''closure_expression'',
           ''parenthesized_expression'', ''struct_expression'']]
       @ [alts [Atom ([], E_node k). k \<leftarrow> [''unsafe_block'', ''async_block'', ''gen_block'',
           ''try_block'', ''block'', ''if_expression'', ''match_expression'',
           ''while_expression'', ''loop_expression'', ''for_expression'', ''const_block'']]]),
     Atom ([], E_node ''range_expression'')]"
  by (simp add: sym_rx_def depth_def rule_of_simps u_expression_def
      u_expression_except_range_def u_literal_def u_reserved_keyword_def
      u_expression_ending_with_block_def)

lemma expression_single: "single (sym_rx ''_expression'')"
  by (simp add: expression_rx)

lemma parenthesized_rx:
  "node_rx ''parenthesized_expression'' =
     Some (cats [Atom ([], E_str ''(''), sym_rx ''_expression'', Atom ([], E_str '')'')])"
proof -
  have "resolved rule_of depth parenthesized_expression"
    by (simp add: parenthesized_expression_def depth_def rule_of_simps u_expression_def
      u_expression_except_range_def u_literal_def u_reserved_keyword_def
      u_expression_ending_with_block_def)
  moreover have "compile rule_of depth [] parenthesized_expression =
      cats [Atom ([], E_str ''(''), sym_rx ''_expression'', Atom ([], E_str '')'')]"
    by (simp add: parenthesized_expression_def compile_Sym del: compile.simps(4))
  ultimately show ?thesis
    by (simp add: node_rx_def rule_of_simps) (simp add: parenthesized_expression_def)
qed

lemma tuple_rx:
  "node_rx ''tuple_expression'' =
     Some (cats [Atom ([], E_str ''(''),
       Star (Atom ([], E_node ''attribute_item'')),
       cats [sym_rx ''_expression'', Atom ([], E_str '','')],
       Star (cats [sym_rx ''_expression'', Atom ([], E_str '','')]),
       alts [sym_rx ''_expression'', Eps],
       Atom ([], E_str '')'')])"
proof -
  have "resolved rule_of depth tuple_expression"
    by (simp add: tuple_expression_def optional_def depth_def rule_of_simps u_expression_def
      u_expression_except_range_def u_literal_def u_reserved_keyword_def
      u_expression_ending_with_block_def)
  moreover have "compile rule_of depth [] tuple_expression =
      cats [Atom ([], E_str ''(''),
       Star (Atom ([], E_node ''attribute_item'')),
       cats [sym_rx ''_expression'', Atom ([], E_str '','')],
       Star (cats [sym_rx ''_expression'', Atom ([], E_str '','')]),
       alts [sym_rx ''_expression'', Eps],
       Atom ([], E_str '')'')]"
    by (simp add: tuple_expression_def optional_def compile_Sym del: compile.simps(4))
       (simp add: sym_rx_def [symmetric] sym_rx_visible)
  ultimately show ?thesis
    by (simp add: node_rx_def rule_of_simps) (simp add: tuple_expression_def)
qed

lemma unit_rx:
  "node_rx ''unit_expression'' = Some (cats [Atom ([], E_str ''(''), Atom ([], E_str '')'')])"
  by (simp add: node_rx_def rule_of_simps) (simp add: unit_expression_def)

lemma parenthesized_children:
  "admits ''parenthesized_expression'' cs =
     (\<exists>e. cs = [([], Anon ''(''), e, ([], Anon '')'')] \<and> is_a ''_expression'' e)"
  unfolding admits_def parenthesized_rx
  by (auto simp: accepts_Atom_Cat accepts_single_Cat [OF expression_single] is_a_fold
      simp del: accepts.simps)

lemma unit_children:
  "admits ''unit_expression'' cs = (cs = [([], Anon ''(''), ([], Anon '')'')])"
  unfolding admits_def unit_rx
  by (auto simp: accepts_Atom_Cat simp del: accepts.simps)

lemma tuple_children:
  assumes "admits ''tuple_expression'' cs"
  shows "\<exists>attrs e rest. cs = ([], Anon ''('') # attrs @ e # ([], Anon '','') # rest
     \<and> list_all (\<lambda>c. fst c = [] \<and> kind_of (snd c) = Some ''attribute_item'') attrs
     \<and> is_a ''_expression'' e
     \<and> rest \<noteq> [] \<and> last rest = ([], Anon '')'')"
proof -
  let ?E = "sym_rx ''_expression''"
  let ?pair = "Cat ?E (Cat (Atom ([], E_str '','')) Eps)"
  let ?close = "Cat (Atom ([], E_str '')'')) Eps"
  let ?tail = "Cat (Star ?pair) (Cat (Alt ?E (Alt Eps Never)) ?close)"
  from assms obtain xs where xs: "cs = ([], Anon ''('') # xs"
    "accepts atom_sat (Cat (Star (Atom ([], E_node ''attribute_item''))) (Cat ?pair ?tail)) xs"
    unfolding admits_def tuple_rx by (auto simp: accepts_Atom_Cat simp del: accepts.simps)
  from xs(2) obtain attrs ys where ys: "xs = attrs @ ys"
    "list_all (atom_sat ([], E_node ''attribute_item'')) attrs"
    "accepts atom_sat (Cat ?pair ?tail) ys"
    unfolding accepts_Star_Atom_Cat by blast
  from ys(3) obtain ps rest where ps: "ys = ps @ rest" "accepts atom_sat ?pair ps"
    "accepts atom_sat ?tail rest"
    unfolding accepts_Cat [of _ ?pair] by blast
  from ps(2) obtain e where e: "ps = [e, ([], Anon '','')]" "is_a ''_expression'' e"
    by (auto simp: accepts_single_Cat [OF expression_single] is_a_fold simp del: accepts.simps)
  from ps(3) obtain us vs where "rest = us @ vs" "accepts atom_sat ?close vs"
    unfolding accepts_Cat [of _ "Star ?pair"] accepts_Cat [of _ "Alt ?E (Alt Eps Never)"]
    by (metis append.assoc)
  then have rest: "rest \<noteq> [] \<and> last rest = ([], Anon '')'')"
    by (auto simp del: accepts.simps)
  have attrs: "list_all (\<lambda>c. fst c = [] \<and> kind_of (snd c) = Some ''attribute_item'') attrs"
    using ys(2) by (auto simp: list_all_iff)
  have "cs = ([], Anon ''('') # attrs @ e # ([], Anon '','') # rest"
    using xs(1) ys(1) ps(1) e(1) by simp
  then show ?thesis using attrs e(2) rest by blast
qed

lemma one_element_tuple:
  assumes "is_a ''_expression'' e"
  shows "admits ''tuple_expression'' [([], Anon ''(''), e, ([], Anon '',''), ([], Anon '')'')]"
proof -
  let ?E = "sym_rx ''_expression''"
  let ?pair = "Cat ?E (Cat (Atom ([], E_str '','')) Eps)"
  let ?close = "Cat (Atom ([], E_str '')'')) Eps"
  let ?tail = "Cat (Star ?pair) (Cat (Alt ?E (Alt Eps Never)) ?close)"
  have pair: "accepts atom_sat ?pair [e, ([], Anon '','')]"
    using assms by (simp add: accepts_single_Cat [OF expression_single] is_a_fold del: accepts.simps)
  have "accepts atom_sat (Cat (Alt ?E (Alt Eps Never)) ?close) ([] @ [([], Anon '')'')])"
    unfolding accepts_Cat [of _ "Alt ?E (Alt Eps Never)"]
    by (intro exI [of _ "[]"] exI [of _ "[([], Anon '')'')]"]) simp
  then have "accepts atom_sat ?tail ([] @ [([], Anon '')'')])"
    unfolding accepts_Cat [of _ "Star ?pair"]
    by (intro exI [of _ "[]"] exI [of _ "[([], Anon '')'')]"]) simp
  then have "accepts atom_sat (Cat ?pair ?tail) ([e, ([], Anon '','')] @ [([], Anon '')'')])"
    unfolding accepts_Cat [of _ ?pair] using pair by blast
  then have "accepts atom_sat (Cat (Star (Atom ([], E_node ''attribute_item''))) (Cat ?pair ?tail))
      ([] @ [e, ([], Anon '',''), ([], Anon '')'')])"
    unfolding accepts_Star_Atom_Cat
    by (intro exI [of _ "[]"] exI [of _ "[e, ([], Anon '',''), ([], Anon '')'')]"]) simp
  then show ?thesis
    unfolding admits_def tuple_rx by (simp add: accepts_Atom_Cat del: accepts.simps)
qed

lemma no_short_tuple: "length cs < 4 \<Longrightarrow> \<not> admits ''tuple_expression'' cs"
proof
  assume len: "length cs < 4" and "admits ''tuple_expression'' cs"
  then obtain attrs e rest where "cs = ([], Anon ''('') # attrs @ e # ([], Anon '','') # rest"
    "rest \<noteq> []"
    using tuple_children [of cs] by blast
  then have "4 \<le> length cs" by (cases rest) auto
  then show False using len by simp
qed

lemma expression_examples:
  "is_a ''_expression'' ([], Node ''parenthesized_expression'' ks)"
  "is_a ''_expression'' ([], Node ''tuple_expression'' ks)"
  "is_a ''_expression'' ([], Node ''unit_expression'' ks)"
  "is_a ''_expression'' ([], Node ''name'' ks)"
  by (simp_all add: is_a_def expression_rx)

text \<open>
  C10. The children of a parenthesized expression are exactly \<open>(\<close>, one expression and
  \<open>)\<close>. The children of a tuple expression start with \<open>(\<close>, attribute items, an
  expression and a comma, and end with \<open>)\<close>: there is a comma after the first element,
  so no three children (\<open>(\<close>, \<open>e\<close>, \<open>)\<close> among them) are a tuple, while \<open>(e,)\<close> is
  a tuple of one element. The children of a unit expression are exactly \<open>(\<close> and \<open>)\<close>,
  which neither of the other two rules admits. All three are expressions.
\<close>

theorem parenthesized_tuple_unit:
  "admits ''parenthesized_expression'' cs =
     (\<exists>e. cs = [([], Anon ''(''), e, ([], Anon '')'')] \<and> is_a ''_expression'' e)
   \<and> (admits ''tuple_expression'' ts \<longrightarrow>
       (\<exists>attrs e rest. ts = ([], Anon ''('') # attrs @ e # ([], Anon '','') # rest
          \<and> list_all (\<lambda>c. fst c = [] \<and> kind_of (snd c) = Some ''attribute_item'') attrs
          \<and> is_a ''_expression'' e
          \<and> rest \<noteq> [] \<and> last rest = ([], Anon '')'')))
   \<and> \<not> admits ''tuple_expression'' [a, b, c]
   \<and> (is_a ''_expression'' x \<longrightarrow>
       admits ''tuple_expression'' [([], Anon ''(''), x, ([], Anon '',''), ([], Anon '')'')]
       \<and> admits ''parenthesized_expression'' [([], Anon ''(''), x, ([], Anon '')'')])
   \<and> admits ''unit_expression'' us = (us = [([], Anon ''(''), ([], Anon '')'')])
   \<and> \<not> admits ''parenthesized_expression'' [([], Anon ''(''), ([], Anon '')'')]
   \<and> \<not> admits ''tuple_expression'' [([], Anon ''(''), ([], Anon '')'')]
   \<and> is_a ''_expression'' ([], Node ''parenthesized_expression'' ks)
   \<and> is_a ''_expression'' ([], Node ''tuple_expression'' ks')
   \<and> is_a ''_expression'' ([], Node ''unit_expression'' ks'')"
  using parenthesized_children [of cs] tuple_children [of ts] no_short_tuple [of "[a, b, c]"]
    one_element_tuple [of x] unit_children [of us]
    no_short_tuple [of "[([], Anon ''(''), ([], Anon '')'')]"]
    expression_examples(1) [of ks] expression_examples(2) [of ks'] expression_examples(3) [of ks'']
  by (simp add: parenthesized_children)

theorem parenthesized_tuple_unit_witness:
  "is_a ''_expression'' ([], identifier_node ''e'')
   \<and> admits ''parenthesized_expression''
        [([], Anon ''(''), ([], identifier_node ''e''), ([], Anon '')'')]
   \<and> admits ''tuple_expression''
        [([], Anon ''(''), ([], identifier_node ''e''), ([], Anon '',''), ([], Anon '')'')]
   \<and> (\<exists>attrs e rest.
        [([], Anon ''(''), ([], identifier_node ''e''), ([], Anon '',''), ([], Anon '')'')]
          = ([], Anon ''('') # attrs @ e # ([], Anon '','') # rest
        \<and> list_all (\<lambda>c. fst c = [] \<and> kind_of (snd c) = Some ''attribute_item'') attrs
        \<and> is_a ''_expression'' e
        \<and> rest \<noteq> [] \<and> last rest = ([], Anon '')''))"
proof -
  have e: "is_a ''_expression'' ([], identifier_node ''e'')"
    by (simp add: identifier_node_def expression_examples)
  show ?thesis
    using e parenthesized_tuple_unit [where x = "([], identifier_node ''e'')"
      and ts = "[([], Anon ''(''), ([], identifier_node ''e''), ([], Anon '',''), ([], Anon '')'')]"]
    by blast
qed

section \<open>Repetitions and bindings in macro patterns\<close>

lemma atom_sat_str: "atom_sat (f, E_str s) x = (x = (f, Anon s))"
  by (cases x) auto

lemma atom_sat_pat: "atom_sat (f, E_pat r) x = (\<exists>t. x = (f, Aux t) \<and> re_match r t)"
  by (cases x) (auto split: cst.splits)

lemma accepts_str_alts:
  "accepts atom_sat (alts (map (\<lambda>s. Atom (f, E_str s)) ss)) cs =
     (\<exists>s. cs = [(f, Anon s)] \<and> s \<in> set ss)"
  by (induction ss) (auto simp del: accepts.simps)

lemma fragment_rx:
  "node_rx ''fragment_specifier'' =
     Some (alts (map (\<lambda>s. Atom ([], E_str s)) [''block'', ''expr'', ''ident'', ''item'',
       ''lifetime'', ''literal'', ''meta'', ''pat'', ''path'', ''stmt'', ''tt'', ''ty'', ''vis'']))"
  by (simp add: node_rx_def rule_of_simps) (simp add: fragment_specifier_def)

lemma fragment_children:
  "admits ''fragment_specifier'' cs =
     (\<exists>s. cs = [([], Anon s)] \<and> s \<in> set [''block'', ''expr'', ''ident'', ''item'',
       ''lifetime'', ''literal'', ''meta'', ''pat'', ''path'', ''stmt'', ''tt'', ''ty'', ''vis''])"
  unfolding admits_def fragment_rx option.case by (rule accepts_str_alts)

lemma binding_rx:
  "node_rx ''token_binding_pattern'' =
     Some (cats [Atom (''name'', E_node ''metavariable''), Atom ([], E_str '':''),
       Atom (''type'', E_node ''fragment_specifier'')])"
  by (simp add: node_rx_def rule_of_simps) (simp add: token_binding_pattern_def)

lemma binding_children:
  "admits ''token_binding_pattern'' cs =
     (\<exists>m t. cs = [(''name'', m), ([], Anon '':''), (''type'', t)]
        \<and> kind_of m = Some ''metavariable'' \<and> kind_of t = Some ''fragment_specifier'')"
  unfolding admits_def binding_rx
  by (auto simp: accepts_Atom_Cat simp del: accepts.simps)

lemma repetition_rx:
  "node_rx ''token_repetition_pattern'' =
     Some (Cat (Atom ([], E_str ''$'')) (Cat (Atom ([], E_str ''(''))
       (Cat (Star (sym_rx ''_token_pattern'')) (Cat (Atom ([], E_str '')''))
       (Cat (Alt (Atom ([], E_pat (Plus (Atom (NCls [Ch (CHR ''+''), Ch (CHR ''*''), Ch (CHR ''?'')])))))
               (Alt Eps Never))
       (Cat (Alt (Atom ([], E_str ''+'')) (Alt (Atom ([], E_str ''*''))
               (Alt (Atom ([], E_str ''?'')) Never))) Eps))))))"
proof -
  have "resolved rule_of depth token_repetition_pattern"
    by (simp add: token_repetition_pattern_def optional_def depth_def rule_of_simps
      u_token_pattern_def u_non_special_token_def u_literal_def
      TOKEN_TREE_NON_SPECIAL_PUNCTUATION_def)
  moreover have "compile rule_of depth [] token_repetition_pattern =
     Cat (Atom ([], E_str ''$'')) (Cat (Atom ([], E_str ''(''))
       (Cat (Star (sym_rx ''_token_pattern'')) (Cat (Atom ([], E_str '')''))
       (Cat (Alt (Atom ([], E_pat (Plus (Atom (NCls [Ch (CHR ''+''), Ch (CHR ''*''), Ch (CHR ''?'')])))))
               (Alt Eps Never))
       (Cat (Alt (Atom ([], E_str ''+'')) (Alt (Atom ([], E_str ''*''))
               (Alt (Atom ([], E_str ''?'')) Never))) Eps)))))"
    by (simp add: token_repetition_pattern_def optional_def compile_Sym del: compile.simps(4))
  ultimately show ?thesis
    by (simp add: node_rx_def rule_of_simps) (simp add: token_repetition_pattern_def)
qed

lemma separator_match:
  "re_match (Plus (Atom (NCls [Ch (CHR ''+''), Ch (CHR ''*''), Ch (CHR ''?'')]))) t =
     (t \<noteq> [] \<and> list_all (\<lambda>c. c \<notin> set ''+*?'') t)"
  by (cases t) (auto simp: re_match_def Plus_def accepts_Atom_Cat accepts_Star_Atom list_all_iff
      simp del: accepts.simps)

lemma repetition_tail:
  "accepts atom_sat
      (Cat (Alt (Atom ([], E_pat (Plus (Atom (NCls [Ch (CHR ''+''), Ch (CHR ''*''), Ch (CHR ''?'')])))))
               (Alt Eps Never))
         (Cat (Alt (Atom ([], E_str ''+'')) (Alt (Atom ([], E_str ''*''))
               (Alt (Atom ([], E_str ''?'')) Never))) Eps)) zs =
   (\<exists>sep op. zs = sep @ [([], Anon op)]
      \<and> (sep = [] \<or> (\<exists>t. sep = [([], Aux t)] \<and> t \<noteq> [] \<and> list_all (\<lambda>c. c \<notin> set ''+*?'') t))
      \<and> op \<in> set [''+'', ''*'', ''?''])"
  (is "?L = ?R")
proof
  assume ?L
  then obtain sep ops where h: "zs = sep @ ops"
    "sep = [] \<or> (\<exists>t. sep = [([], Aux t)] \<and> re_match (Plus (Atom (NCls [Ch (CHR ''+''), Ch (CHR ''*''), Ch (CHR ''?'')]))) t)"
    "ops = [([], Anon ''+'')] \<or> ops = [([], Anon ''*'')] \<or> ops = [([], Anon ''?'')]"
    unfolding accepts_Cat [of _ "Alt _ _" "Cat _ _"]
    by (auto simp: atom_sat_str atom_sat_pat simp del: accepts.simps atom_sat.simps)
  then obtain op where "ops = [([], Anon op)]" "op \<in> set [''+'', ''*'', ''?'']"
    by auto
  then show ?R using h(1,2) unfolding separator_match by blast
next
  assume ?R
  then obtain sep op where h: "zs = sep @ [([], Anon op)]"
    "sep = [] \<or> (\<exists>t. sep = [([], Aux t)] \<and> t \<noteq> [] \<and> list_all (\<lambda>c. c \<notin> set ''+*?'') t)"
    "op \<in> set [''+'', ''*'', ''?'']"
    by blast
  have 1: "accepts atom_sat (Alt (Atom ([], E_pat (Plus (Atom (NCls [Ch (CHR ''+''), Ch (CHR ''*''), Ch (CHR ''?'')])))))
               (Alt Eps Never)) sep"
    using h(2) unfolding separator_match [symmetric]
    by (auto simp: atom_sat_pat simp del: accepts.simps atom_sat.simps)
  have 2: "accepts atom_sat (Cat (Alt (Atom ([], E_str ''+'')) (Alt (Atom ([], E_str ''*''))
               (Alt (Atom ([], E_str ''?'')) Never))) Eps) [([], Anon op)]"
    using h(3) by (auto simp: atom_sat_str simp del: accepts.simps atom_sat.simps)
  show ?L
    unfolding accepts_Cat [of _ "Alt _ _" "Cat _ _"] h(1) using 1 2 by blast
qed

lemma repetition_children:
  "admits ''token_repetition_pattern'' cs =
     (\<exists>body sep op. cs = ([], Anon ''$'') # ([], Anon ''('') # body @ ([], Anon '')'') # sep @ [([], Anon op)]
        \<and> accepts atom_sat (Star (sym_rx ''_token_pattern'')) body
        \<and> (sep = [] \<or> (\<exists>t. sep = [([], Aux t)] \<and> t \<noteq> [] \<and> list_all (\<lambda>c. c \<notin> set ''+*?'') t))
        \<and> op \<in> set [''+'', ''*'', ''?''])"
  (is "?L = ?R")
proof -
  let ?tail = "Cat (Alt (Atom ([], E_pat (Plus (Atom (NCls [Ch (CHR ''+''), Ch (CHR ''*''), Ch (CHR ''?'')])))))
               (Alt Eps Never))
         (Cat (Alt (Atom ([], E_str ''+'')) (Alt (Atom ([], E_str ''*''))
               (Alt (Atom ([], E_str ''?'')) Never))) Eps)"
  have "?L = (\<exists>xs. cs = ([], Anon ''$'') # ([], Anon ''('') # xs \<and>
      (\<exists>body ys. xs = body @ ys \<and> accepts atom_sat (Star (sym_rx ''_token_pattern'')) body \<and>
         (\<exists>zs. ys = ([], Anon '')'') # zs \<and> accepts atom_sat ?tail zs)))"
    unfolding admits_def repetition_rx option.case accepts_Atom_Cat
      accepts_Cat [of _ "Star _"] atom_sat_str
    by blast
  also have "\<dots> = ?R"
    unfolding repetition_tail by (simp del: accepts.simps) blast
  finally show ?thesis .
qed

lemma repetition_example:
  "conforms (Node ''token_repetition_pattern'' [
      ([], Anon ''$''), ([], Anon ''(''),
      ([], Node ''token_binding_pattern'' [
         (''name'', Leaf ''metavariable'' ''$x''),
         ([], Anon '':''),
         (''type'', Node ''fragment_specifier'' [([], Anon ''expr'')])]),
      ([], Anon '')''), ([], Aux '',''), ([], Anon ''*'')])"
proof -
  have tp: "accepts atom_sat (Star (sym_rx ''_token_pattern''))
      [([], Node ''token_binding_pattern'' ks)]" for ks
    by (simp add: sym_rx_def depth_def rule_of_simps u_token_pattern_def)
  have "admits ''token_repetition_pattern'' (([], Anon ''$'') # ([], Anon ''('') #
      [([], Node ''token_binding_pattern'' ks)] @ ([], Anon '')'') # [([], Aux '','')] @ [([], Anon ''*'')])" for ks
    unfolding repetition_children using tp [of ks] by (intro exI conjI) (rule refl, simp_all)
  then show ?thesis
    by (simp add: binding_children fragment_children rule_of_simps metavariable_def re_match_def)
qed

text \<open>What the parser of token patterns takes from the rules.\<close>

lemma pattern_tables:
  "delimiters = [(''('', '')''), (''['', '']''), (''{'', ''}'')]"
  "repetition_separator =
     Some (Plus (Atom (NCls [Ch (CHR ''+''), Ch (CHR ''*''), Ch (CHR ''?'')])))"
  "repetition_operators = [''+'', ''*'', ''?'']"
  "fragment_kinds = [''block'', ''expr'', ''ident'', ''item'', ''lifetime'', ''literal'',
     ''meta'', ''pat'', ''path'', ''stmt'', ''tt'', ''ty'', ''vis'']"
  by (simp_all add: delimiters_def repetition_separator_def repetition_operators_def
      fragment_kinds_def token_tree_pattern_def token_repetition_pattern_def optional_def
      fragment_specifier_def)

lemma binding_precedence:
  "p_prec metavariable_production = 0"
  "p_prec binding_production = 1"
  "p_assoc metavariable_production = NoAssoc"
  "resolve (Some (metavariable_production, [])) binding_production = Shift"
  by (simp_all add: metavariable_production_def binding_production_def rule_production_def
      the_prec_def u_token_pattern_def token_binding_pattern_def)

lemma binding_node:
  "build binding_production [m, c, t] =
     Node ''token_binding_pattern'' [(''name'', m), ('''', c), (''type'', t)]"
  by (simp add: build_def binding_production_def rule_production_def token_binding_pattern_def)

lemma metavariable_x: "is_metavariable ''$x''"
  by (simp add: is_metavariable_def metavariable_def re_match_def)

lemma after_metavariable_binding:
  "f \<in> set fragment_kinds \<Longrightarrow>
     after_metavariable l ('':'' # f # ls) =
       Some (Node ''token_binding_pattern'' [(''name'', Leaf ''metavariable'' l), ('''', Anon '':''),
          (''type'', Node ''fragment_specifier'' [('''', Anon f)])], ls)"
  "f \<notin> set fragment_kinds \<Longrightarrow> after_metavariable l ('':'' # f # ls) = None"
  "after_metavariable l ['':''] = None"
  "c \<noteq> '':'' \<Longrightarrow> after_metavariable l (c # ls) = Some (Leaf ''metavariable'' l, c # ls)"
  "after_metavariable l [] = Some (Leaf ''metavariable'' l, [])"
  by (simp_all add: after_metavariable_def binding_precedence binding_node)

lemmas token_pattern_defs = parse_token_patterns_def pattern_tables metavariable_x
  after_metavariable_binding repetition_end_def separator_match

lemma repetition_parse:
  "parse_token_patterns [''$'', ''('', ''$x'', '':'', ''expr'', '')'', '','', ''*''] =
     Some [([], Node ''token_repetition_pattern'' [
        ([], Anon ''$''), ([], Anon ''(''),
        ([], Node ''token_binding_pattern'' [
           (''name'', Leaf ''metavariable'' ''$x''),
           ([], Anon '':''),
           (''type'', Node ''fragment_specifier'' [([], Anon ''expr'')])]),
        ([], Anon '')''), ([], Aux '',''), ([], Anon ''*'')])]"
  by (simp add: token_pattern_defs)

lemma pattern_parses:
  "parse_token_patterns [''$'', ''('', ''$x'', '':'', ''expr'', '')'', ''*''] =
     Some [([], Node ''token_repetition_pattern'' [
        ([], Anon ''$''), ([], Anon ''(''),
        ([], Node ''token_binding_pattern'' [
           (''name'', Leaf ''metavariable'' ''$x''),
           ([], Anon '':''),
           (''type'', Node ''fragment_specifier'' [([], Anon ''expr'')])]),
        ([], Anon '')''), ([], Anon ''*'')])]"
  "parse_token_patterns [''$'', ''('', ''$x'', '':'', ''expr'', '')'', '',''] = None"
  "parse_token_patterns [''$'', ''('', ''$x'', '':'', ''expr'', '')''] = None"
  "parse_token_patterns [''$x'', '':'', ''expr''] =
     Some [([], Node ''token_binding_pattern'' [
        (''name'', Leaf ''metavariable'' ''$x''),
        ([], Anon '':''),
        (''type'', Node ''fragment_specifier'' [([], Anon ''expr'')])])]"
  "parse_token_patterns [''$x'', '':'', ''x''] = None"
  "parse_token_patterns [''$x''] = Some [([], Leaf ''metavariable'' ''$x'')]"
  by (simp_all add: token_pattern_defs)

lemma star_not_metavariable: "\<not> is_metavariable ''*''"
  by (simp add: is_metavariable_def metavariable_def re_match_def)

lemma star_token: "non_special ''*'' = Some (Anon ''*'')"
  by (simp add: non_special_def u_non_special_token_def TOKEN_TREE_NON_SPECIAL_PUNCTUATION_def)

lemma any_separator:
  "parse_token_patterns [''$'', ''('', ''$x'', '':'', ''expr'', '')'', s, ''*''] =
     (if s \<in> set [''+'', ''*'', ''?'']
      then Some [([], Node ''token_repetition_pattern'' [
              ([], Anon ''$''), ([], Anon ''(''),
              ([], Node ''token_binding_pattern'' [
                 (''name'', Leaf ''metavariable'' ''$x''),
                 ([], Anon '':''),
                 (''type'', Node ''fragment_specifier'' [([], Anon ''expr'')])]),
              ([], Anon '')''), ([], Anon s)]),
            ([], Anon ''*'')]
      else if s \<noteq> [] \<and> list_all (\<lambda>c. c \<notin> set ''+*?'') s
      then Some [([], Node ''token_repetition_pattern'' [
              ([], Anon ''$''), ([], Anon ''(''),
              ([], Node ''token_binding_pattern'' [
                 (''name'', Leaf ''metavariable'' ''$x''),
                 ([], Anon '':''),
                 (''type'', Node ''fragment_specifier'' [([], Anon ''expr'')])]),
              ([], Anon '')''), ([], Aux s), ([], Anon ''*'')])]
      else None)"
  by (simp add: token_pattern_defs star_not_metavariable star_token)

lemma any_operator:
  "parse_token_patterns [''$'', ''('', ''$x'', '':'', ''expr'', '')'', '','', op] =
     (if op \<in> set [''+'', ''*'', ''?'']
      then Some [([], Node ''token_repetition_pattern'' [
              ([], Anon ''$''), ([], Anon ''(''),
              ([], Node ''token_binding_pattern'' [
                 (''name'', Leaf ''metavariable'' ''$x''),
                 ([], Anon '':''),
                 (''type'', Node ''fragment_specifier'' [([], Anon ''expr'')])]),
              ([], Anon '')''), ([], Aux '',''), ([], Anon op)])]
      else None)"
  by (simp add: token_pattern_defs)

lemma any_fragment:
  "parse_token_patterns [''$x'', '':'', f] =
     (if f \<in> set [''block'', ''expr'', ''ident'', ''item'', ''lifetime'', ''literal'',
           ''meta'', ''pat'', ''path'', ''stmt'', ''tt'', ''ty'', ''vis'']
      then Some [([], Node ''token_binding_pattern'' [
              (''name'', Leaf ''metavariable'' ''$x''),
              ([], Anon '':''),
              (''type'', Node ''fragment_specifier'' [([], Anon f)])])]
      else None)"
  by (simp add: token_pattern_defs)

lemma repetition_shown:
  "children (Node ''token_repetition_pattern'' [
        ([], Anon ''$''), ([], Anon ''(''),
        ([], Node ''token_binding_pattern'' [
           (''name'', Leaf ''metavariable'' ''$x''),
           ([], Anon '':''),
           (''type'', Node ''fragment_specifier'' [([], Anon ''expr'')])]),
        ([], Anon '')''), ([], Aux '',''), ([], Anon ''*'')]) =
     [([], Anon ''$''), ([], Anon ''(''),
      ([], Node ''token_binding_pattern'' [
         (''name'', Leaf ''metavariable'' ''$x''),
         ([], Anon '':''),
         (''type'', Node ''fragment_specifier'' [([], Anon ''expr'')])]),
      ([], Anon '')''), ([], Anon ''*'')]"
  by simp

text \<open>
  C7. The members of a repetition pattern are \<open>$\<close>, \<open>(\<close>, token patterns, \<open>)\<close>, then at
  most one separator, which is not empty and has none of the characters \<open>+\<close>, \<open>*\<close>,
  \<open>?\<close>, and last, always, one operator out of \<open>+\<close>, \<open>*\<close>, \<open>?\<close>. The separator is an
  inline pattern of the rule: it is read, and it is no child that the tree shows. A
  binding is a metavariable as \<open>name\<close>, a colon, and a fragment specifier as \<open>type\<close>; a
  fragment specifier is one of the thirteen kinds. The parser reads \<open>$($x:expr),*\<close> as
  one repetition pattern with one binding (\<open>$x\<close>, \<open>expr\<close>), the separator \<open>,\<close> and the
  operator \<open>*\<close>; the tree shows five children, conforms to the grammar and has the
  input as its text. In place of the comma, every lexeme that is a separator is read
  as one, and with an operator in its place the repetition ends there; in place of
  \<open>*\<close>, exactly the three operators are read, and without an operator there is no
  parse. After a metavariable the colon is shifted, because the binding has the higher
  precedence, so \<open>$x:f\<close> is a binding for exactly the thirteen kinds \<open>f\<close> and has no
  parse for any other \<open>f\<close>.
\<close>

theorem macro_repetition_pattern:
  "admits ''token_repetition_pattern'' cs =
     (\<exists>body sep op. cs = ([], Anon ''$'') # ([], Anon ''('') # body @ ([], Anon '')'') # sep @ [([], Anon op)]
        \<and> accepts atom_sat (Star (sym_rx ''_token_pattern'')) body
        \<and> (sep = [] \<or> (\<exists>t. sep = [([], Aux t)] \<and> t \<noteq> [] \<and> list_all (\<lambda>c. c \<notin> set ''+*?'') t))
        \<and> op \<in> set [''+'', ''*'', ''?''])
   \<and> admits ''token_binding_pattern'' bs =
     (\<exists>m t. bs = [(''name'', m), ([], Anon '':''), (''type'', t)]
        \<and> kind_of m = Some ''metavariable'' \<and> kind_of t = Some ''fragment_specifier'')
   \<and> admits ''fragment_specifier'' fs =
     (\<exists>s. fs = [([], Anon s)] \<and> s \<in> set [''block'', ''expr'', ''ident'', ''item'',
       ''lifetime'', ''literal'', ''meta'', ''pat'', ''path'', ''stmt'', ''tt'', ''ty'', ''vis''])
   \<and> parse_token_patterns [''$'', ''('', ''$x'', '':'', ''expr'', '')'', '','', ''*''] =
     Some [([], Node ''token_repetition_pattern'' [
           ([], Anon ''$''), ([], Anon ''(''),
           ([], Node ''token_binding_pattern'' [
              (''name'', Leaf ''metavariable'' ''$x''),
              ([], Anon '':''),
              (''type'', Node ''fragment_specifier'' [([], Anon ''expr'')])]),
           ([], Anon '')''), ([], Aux '',''), ([], Anon ''*'')])]
   \<and> children (Node ''token_repetition_pattern'' [
           ([], Anon ''$''), ([], Anon ''(''),
           ([], Node ''token_binding_pattern'' [
              (''name'', Leaf ''metavariable'' ''$x''),
              ([], Anon '':''),
              (''type'', Node ''fragment_specifier'' [([], Anon ''expr'')])]),
           ([], Anon '')''), ([], Aux '',''), ([], Anon ''*'')]) =
     [([], Anon ''$''), ([], Anon ''(''),
      ([], Node ''token_binding_pattern'' [
            (''name'', Leaf ''metavariable'' ''$x''),
            ([], Anon '':''),
            (''type'', Node ''fragment_specifier'' [([], Anon ''expr'')])]),
      ([], Anon '')''), ([], Anon ''*'')]
   \<and> conforms (Node ''token_repetition_pattern'' [
           ([], Anon ''$''), ([], Anon ''(''),
           ([], Node ''token_binding_pattern'' [
              (''name'', Leaf ''metavariable'' ''$x''),
              ([], Anon '':''),
              (''type'', Node ''fragment_specifier'' [([], Anon ''expr'')])]),
           ([], Anon '')''), ([], Aux '',''), ([], Anon ''*'')])
   \<and> yield (Node ''token_repetition_pattern'' [
           ([], Anon ''$''), ([], Anon ''(''),
           ([], Node ''token_binding_pattern'' [
              (''name'', Leaf ''metavariable'' ''$x''),
              ([], Anon '':''),
              (''type'', Node ''fragment_specifier'' [([], Anon ''expr'')])]),
           ([], Anon '')''), ([], Aux '',''), ([], Anon ''*'')])
      = [''$'', ''('', ''$x'', '':'', ''expr'', '')'', '','', ''*'']
   \<and> parse_token_patterns [''$'', ''('', ''$x'', '':'', ''expr'', '')'', s, ''*''] =
     (if s \<in> set [''+'', ''*'', ''?'']
      then Some [([], Node ''token_repetition_pattern'' [
               ([], Anon ''$''), ([], Anon ''(''),
               ([], Node ''token_binding_pattern'' [
                  (''name'', Leaf ''metavariable'' ''$x''),
                  ([], Anon '':''),
                  (''type'', Node ''fragment_specifier'' [([], Anon ''expr'')])]),
               ([], Anon '')''), ([], Anon s)]),
            ([], Anon ''*'')]
      else if s \<noteq> [] \<and> list_all (\<lambda>c. c \<notin> set ''+*?'') s
      then Some [([], Node ''token_repetition_pattern'' [
               ([], Anon ''$''), ([], Anon ''(''),
               ([], Node ''token_binding_pattern'' [
                  (''name'', Leaf ''metavariable'' ''$x''),
                  ([], Anon '':''),
                  (''type'', Node ''fragment_specifier'' [([], Anon ''expr'')])]),
               ([], Anon '')''), ([], Aux s), ([], Anon ''*'')])]
      else None)
   \<and> parse_token_patterns [''$'', ''('', ''$x'', '':'', ''expr'', '')'', '','', op] =
     (if op \<in> set [''+'', ''*'', ''?'']
      then Some [([], Node ''token_repetition_pattern'' [
               ([], Anon ''$''), ([], Anon ''(''),
               ([], Node ''token_binding_pattern'' [
                  (''name'', Leaf ''metavariable'' ''$x''),
                  ([], Anon '':''),
                  (''type'', Node ''fragment_specifier'' [([], Anon ''expr'')])]),
               ([], Anon '')''), ([], Aux '',''), ([], Anon op)])]
      else None)
   \<and> parse_token_patterns [''$'', ''('', ''$x'', '':'', ''expr'', '')''] = None
   \<and> p_prec metavariable_production < p_prec binding_production
   \<and> resolve (Some (metavariable_production, [])) binding_production = Shift
   \<and> parse_token_patterns [''$x'', '':'', f] =
     (if f \<in> set [''block'', ''expr'', ''ident'', ''item'', ''lifetime'', ''literal'',
           ''meta'', ''pat'', ''path'', ''stmt'', ''tt'', ''ty'', ''vis'']
      then Some [([], Node ''token_binding_pattern'' [
               (''name'', Leaf ''metavariable'' ''$x''),
               ([], Anon '':''),
               (''type'', Node ''fragment_specifier'' [([], Anon f)])])]
      else None)
   \<and> parse_token_patterns [''$x''] = Some [([], Leaf ''metavariable'' ''$x'')]"
  using repetition_children [of cs] binding_children [of bs] fragment_children [of fs]
    repetition_example repetition_parse repetition_shown any_separator [of s]
    any_operator [of op] pattern_parses(3) binding_precedence any_fragment [of f]
    pattern_parses(6)
  by (simp del: children.simps conforms.simps)

end
